theory Spec2Isabelle
  imports Main "HOL-Library.Sublist"
begin

section \<open>Environment and JavaScript truthiness\<close>

text \<open>
  \<open>process.env\<close> maps a variable name to a string or to \<open>undefined\<close>.  An environment
  variable is read as \<open>string option\<close>; the JavaScript tests \<open>!v\<close> and \<open>v || d\<close> treat
  \<open>undefined\<close> and the empty string alike (both are falsy).
\<close>

record environment =
  VAPID_PUBLIC_KEY :: "string option"
  VAPID_PRIVATE_KEY :: "string option"
  VAPID_SUBJECT :: "string option"
  INTERNAL_SECRET :: "string option"
  SUPABASE_SERVICE_ROLE_KEY :: "string option"

definition truthy :: "string option \<Rightarrow> bool" where
  "truthy v = (case v of None \<Rightarrow> False | Some s \<Rightarrow> s \<noteq> [])"

text \<open>\<open>v || d\<close> where \<open>d\<close> is a string that is always there.\<close>

definition or_else :: "string option \<Rightarrow> string \<Rightarrow> string" where
  "or_else v d = (case v of None \<Rightarrow> d | Some s \<Rightarrow> if s = [] then d else s)"

text \<open>
  \<open>const internalSecret = process.env.INTERNAL_SECRET || process.env.VAPID_SUBJECT
  || 'change-me-in-production'\<close> (route \<open>/api/push/send\<close>).
\<close>

definition internalSecret :: "environment \<Rightarrow> string" where
  "internalSecret env =
     or_else (INTERNAL_SECRET env) (or_else (VAPID_SUBJECT env) ''change-me-in-production'')"

text \<open>
  The messages of the server responses; an accented letter is written by its Latin-1
  code (\<open>0xE3\<close> is a with tilde, \<open>0xE1\<close> a with acute, \<open>0xF3\<close> o with acute,
  \<open>0xE7\<close> c with cedilla).
\<close>

definition msg_unauthorized :: string where
  "msg_unauthorized =
     ''Acesso n'' @ [CHR 0xE3] @ ''o autorizado. Secret inv'' @ [CHR 0xE1] @ ''lido.''"

definition msg_vapid_missing :: string where
  "msg_vapid_missing = ''VAPID keys n'' @ [CHR 0xE3] @ ''o configuradas no servidor''"

definition msg_title_body_required :: string where
  "msg_title_body_required = ''Campos obrigat'' @ [CHR 0xF3] @ ''rios: title, body''"

definition msg_send_failed :: string where
  "msg_send_failed = ''Erro ao enviar notifica'' @ [CHR 0xE7, CHR 0xE3] @ ''o''"

definition msg_service_key_missing :: string where
  "msg_service_key_missing = ''SUPABASE_SERVICE_ROLE_KEY n'' @ [CHR 0xE3] @ ''o configurada''"

definition msg_token_missing :: string where
  "msg_token_missing = ''Token de acesso n'' @ [CHR 0xE3] @ ''o fornecido''"

definition msg_not_authenticated :: string where
  "msg_not_authenticated = ''N'' @ [CHR 0xE3] @ ''o autenticado''"

definition msg_subscription_fields_required :: string where
  "msg_subscription_fields_required =
     ''Campos obrigat'' @ [CHR 0xF3] @ ''rios: endpoint, p256dh, auth''"

section \<open>The subscription table and the push gateway\<close>

text \<open>
  One row of \<open>push_subscriptions\<close> (migration \<open>create_push_subscriptions_table.sql\<close>).
  The UUID primary key is a number here; timestamps are numbers.
\<close>

record subscription_row =
  row_id :: nat
  user_id :: string
  endpoint :: string
  p256dh :: string
  auth :: string
  created_at :: nat
  updated_at :: nat

text \<open>The object handed to \<open>webpush.sendNotification\<close>: endpoint and the two keys.\<close>

datatype pushSubscription = PushSubscription string string string

definition pushSubscription_of :: "subscription_row \<Rightarrow> pushSubscription" where
  "pushSubscription_of r = PushSubscription (endpoint r) (p256dh r) (auth r)"

text \<open>The serialised notification (the argument of \<open>JSON.stringify\<close>).\<close>

record wire_payload =
  w_title :: string
  w_body :: string
  w_icon :: string
  w_badge :: string
  w_tag :: string
  w_data :: "string \<rightharpoonup> string"

text \<open>
  What one call of the gateway does: it resolves, or it rejects with an error that carries
  an optional HTTP status code and a message.
\<close>

datatype gateway_outcome = Delivered | Rejected "nat option" string

type_synonym gateway = "pushSubscription \<Rightarrow> wire_payload \<Rightarrow> gateway_outcome"

text \<open>
  The effects a handler can have on the outside: gateway calls and queries on the table.
  The world holds the table, a fault of the data store (a query then answers with that
  error) and the trace of effects, latest first.
\<close>

datatype effect =
    GatewaySend pushSubscription wire_payload
  | DbSelect "string option"
  | DbDelete nat

record world =
  rows :: "subscription_row list"
  db_fault :: "string option"
  trace :: "effect list"

text \<open>\<open>supabase.from('push_subscriptions').select('*')\<close>, with \<open>.eq('user_id', userId)\<close>
  when a truthy \<open>userId\<close> is given.\<close>

definition matching :: "string option \<Rightarrow> subscription_row list \<Rightarrow> subscription_row list" where
  "matching userId rs = (if truthy userId then filter (\<lambda>r. Some (user_id r) = userId) rs else rs)"

definition db_select :: "string option \<Rightarrow> world \<Rightarrow> (string + subscription_row list) \<times> world" where
  "db_select userId w =
     (let w' = w\<lparr>trace := DbSelect (if truthy userId then userId else None) # trace w\<rparr>
      in case db_fault w of
           Some e \<Rightarrow> (Inl e, w')
         | None \<Rightarrow> (Inr (matching userId (rows w)), w'))"

text \<open>\<open>.delete().eq('id', subscription.id)\<close>; its result is not looked at by the caller.\<close>

definition db_delete :: "nat \<Rightarrow> world \<Rightarrow> world" where
  "db_delete i w =
     (let w' = w\<lparr>trace := DbDelete i # trace w\<rparr>
      in case db_fault w of
           Some e \<Rightarrow> w'
         | None \<Rightarrow> w'\<lparr>rows := filter (\<lambda>r. row_id r \<noteq> i) (rows w)\<rparr>)"

section \<open>The notification dispatcher\<close>

text \<open>The request body of \<open>/api/push/send\<close> and the argument of the library function.\<close>

record push_payload =
  userId :: "string option"
  title :: "string option"
  body :: "string option"
  icon :: "string option"
  badge :: "string option"
  tag :: "string option"
  data :: "(string \<rightharpoonup> string) option"
  url :: "string option"

definition notificationPayload :: "push_payload \<Rightarrow> wire_payload" where
  "notificationPayload p =
     \<lparr> w_title = or_else (title p) [],
       w_body = or_else (body p) [],
       w_icon = or_else (icon p) ''/icon.svg'',
       w_badge = or_else (badge p) ''/icon.svg'',
       w_tag = or_else (tag p) ''visitaflow-notification'',
       w_data = (case data p of None \<Rightarrow> Map.empty | Some d \<Rightarrow> d)
                  (''url'' \<mapsto> or_else (url p) ''/dashboard'') \<rparr>"

text \<open>The value one element of \<open>sendPromises\<close> resolves to.\<close>

record task_result =
  t_success :: bool
  subscriptionId :: nat
  t_error :: "string option"

text \<open>
  The body of the \<open>subscriptions.map(async (subscription) => ...)\<close> callback: one gateway
  call; on rejection with status code 410 the row is deleted; the callback never throws.
\<close>

definition sendTask :: "gateway \<Rightarrow> wire_payload \<Rightarrow> subscription_row \<Rightarrow> world \<Rightarrow> task_result \<times> world" where
  "sendTask gw payload subscription w =
     (let ps = pushSubscription_of subscription;
          w1 = w\<lparr>trace := GatewaySend ps payload # trace w\<rparr>
      in case gw ps payload of
           Delivered \<Rightarrow>
             (\<lparr>t_success = True, subscriptionId = row_id subscription, t_error = None\<rparr>, w1)
         | Rejected statusCode msg \<Rightarrow>
             (\<lparr>t_success = False, subscriptionId = row_id subscription, t_error = Some msg\<rparr>,
              if statusCode = Some 410 then db_delete (row_id subscription) w1 else w1))"

text \<open>
  The sends run concurrently.  \<open>order\<close> is the order in which the callbacks complete, as
  indices into \<open>subscriptions\<close>; the result of callback \<open>i\<close> is stored at position \<open>i\<close>, as
  \<open>Promise.allSettled\<close> does.  A slot still \<open>None\<close> is a callback that has not completed.
  The trace records a gateway call, and the deletion that may follow it, when the callback
  completes.
\<close>

fun settle :: "gateway \<Rightarrow> wire_payload \<Rightarrow> subscription_row list \<Rightarrow> nat list \<Rightarrow>
    task_result option list \<times> world \<Rightarrow> task_result option list \<times> world" where
  "settle gw payload subscriptions [] st = st"
| "settle gw payload subscriptions (i # order) (results, w) =
     (if i < length subscriptions then
        (case sendTask gw payload (subscriptions ! i) w of
           (r, w') \<Rightarrow> settle gw payload subscriptions order (results[i := Some r], w'))
      else settle gw payload subscriptions order (results, w))"

text \<open>\<open>results.filter((r) => r.status === 'fulfilled' && r.value.success).length\<close>\<close>

definition successful :: "task_result option list \<Rightarrow> nat" where
  "successful results =
     length (filter (\<lambda>r. case r of None \<Rightarrow> False | Some v \<Rightarrow> t_success v) results)"

text \<open>
  A JavaScript object literal returned to the caller: a field that the literal does not
  write is \<open>None\<close>.
\<close>

record result_object =
  success :: "bool option"
  sent :: "nat option"
  failed :: "nat option"
  total :: "nat option"
  message :: "string option"
  error :: "string option"

definition empty_object :: result_object where
  "empty_object = \<lparr> success = None, sent = None, failed = None, total = None,
                     message = None, error = None \<rparr>"

text \<open>The request of \<open>POST /api/push/send\<close>: the header and the parsed JSON body
  (\<open>Inl\<close> the message of the error when \<open>request.json()\<close> throws).\<close>

record send_request =
  x_internal_secret :: "string option"
  json :: "string + push_payload"

text \<open>\<open>createAdminSupabaseClient\<close> throws when the service key is missing.\<close>

definition createAdminSupabaseClient :: "environment \<Rightarrow> string + unit" where
  "createAdminSupabaseClient env =
     (if truthy (SUPABASE_SERVICE_ROLE_KEY env) then Inr ()
      else Inl msg_service_key_missing)"

text \<open>\<open>export async function POST(request)\<close> of \<open>/api/push/send\<close>: status, body, world.\<close>

definition POST_send :: "environment \<Rightarrow> gateway \<Rightarrow> nat list \<Rightarrow> send_request \<Rightarrow> world \<Rightarrow>
    (nat \<times> result_object) \<times> world" where
  "POST_send env gw order request w =
     (if x_internal_secret request \<noteq> Some (internalSecret env) then
        ((401, empty_object\<lparr>message := Some msg_unauthorized\<rparr>), w)
      else if \<not> truthy (VAPID_PUBLIC_KEY env) \<or> \<not> truthy (VAPID_PRIVATE_KEY env) then
        ((500, empty_object\<lparr>message := Some msg_vapid_missing\<rparr>), w)
      else case json request of
        Inl e \<Rightarrow> ((500, empty_object\<lparr>message := Some (or_else (Some e) msg_send_failed)\<rparr>), w)
      | Inr p \<Rightarrow>
          if \<not> truthy (title p) \<or> \<not> truthy (body p) then
            ((400, empty_object\<lparr>message := Some msg_title_body_required\<rparr>), w)
          else (case createAdminSupabaseClient env of
            Inl e \<Rightarrow> ((500, empty_object\<lparr>message := Some (or_else (Some e) msg_send_failed)\<rparr>), w)
          | Inr _ \<Rightarrow>
             (case db_select (userId p) w of
                (Inl fetchError, w1) \<Rightarrow>
                  ((500, empty_object\<lparr>message := Some (or_else (Some fetchError)
                                                       msg_send_failed)\<rparr>), w1)
              | (Inr subscriptions, w1) \<Rightarrow>
                  if subscriptions = [] then
                    ((200, empty_object\<lparr>message := Some ''Nenhuma subscription encontrada'',
                                        sent := Some 0\<rparr>), w1)
                  else
                    (case settle gw (notificationPayload p) subscriptions order
                            (replicate (length subscriptions) None, w1) of
                       (results, w2) \<Rightarrow>
                         ((200, empty_object\<lparr>success := Some True,
                                             sent := Some (successful results),
                                             failed := Some (length results - successful results),
                                             total := Some (length subscriptions)\<rparr>), w2)))))"

text \<open>\<open>sendPushNotificationServer(payload)\<close> of \<open>lib/push-send-server.ts\<close>.\<close>

definition sendPushNotificationServer :: "environment \<Rightarrow> gateway \<Rightarrow> nat list \<Rightarrow> push_payload \<Rightarrow>
    world \<Rightarrow> result_object \<times> world" where
  "sendPushNotificationServer env gw order p w =
     (if \<not> truthy (VAPID_PUBLIC_KEY env) \<or> \<not> truthy (VAPID_PRIVATE_KEY env) then
        (empty_object\<lparr>success := Some False, sent := Some 0, failed := Some 0,
                      error := Some msg_vapid_missing\<rparr>, w)
      else if \<not> truthy (title p) \<or> \<not> truthy (body p) then
        (empty_object\<lparr>success := Some False, sent := Some 0, failed := Some 0,
                      error := Some msg_title_body_required\<rparr>, w)
      else case createAdminSupabaseClient env of
        Inl e \<Rightarrow> (empty_object\<lparr>success := Some False, sent := Some 0, failed := Some 0,
                                error := Some (or_else (Some e) ''Erro desconhecido'')\<rparr>, w)
      | Inr _ \<Rightarrow>
         (case db_select (userId p) w of
            (Inl fetchError, w1) \<Rightarrow>
              (empty_object\<lparr>success := Some False, sent := Some 0, failed := Some 0,
                            error := Some (or_else (Some fetchError) ''Erro desconhecido'')\<rparr>, w1)
          | (Inr subscriptions, w1) \<Rightarrow>
              if subscriptions = [] then
                (empty_object\<lparr>success := Some True, sent := Some 0, failed := Some 0\<rparr>, w1)
              else
                (case settle gw (notificationPayload p) subscriptions order
                        (replicate (length subscriptions) None, w1) of
                   (results, w2) \<Rightarrow>
                     (empty_object\<lparr>success := Some True,
                                   sent := Some (successful results),
                                   failed := Some (length results - successful results)\<rparr>, w2))))"

section \<open>The subscription store endpoint\<close>

text \<open>
  The identity provider behind \<open>supabase.auth\<close>, as \<open>getServerUser\<close> uses it: \<open>getUser(token)\<close>
  (the user id, or \<open>None\<close> for an error or no user), the session and the access token found
  in the cookies, and \<open>getUser()\<close> without a token.
\<close>

record identity_provider =
  getUser :: "string \<Rightarrow> string option"
  cookie_session :: "string option"
  cookie_token :: "string option"
  getUser_default :: "string option"

text \<open>\<open>String.prototype.replace(pattern, replacement)\<close> with a string pattern: the first
  occurrence only.\<close>

fun replace_first :: "string \<Rightarrow> string \<Rightarrow> string \<Rightarrow> string" where
  "replace_first pat rep [] = (if pat = [] then rep else [])"
| "replace_first pat rep (c # cs) =
     (if prefix pat (c # cs) then rep @ drop (length pat) (c # cs)
      else c # replace_first pat rep cs)"

definition getServerUser :: "identity_provider \<Rightarrow> string option \<Rightarrow> string option" where
  "getServerUser idp authHeader =
     (let cookies =
            (case cookie_session idp of
               Some u \<Rightarrow> Some u
             | None \<Rightarrow>
                 (case (if truthy (cookie_token idp)
                        then Option.bind (cookie_token idp) (getUser idp) else None) of
                    Some u \<Rightarrow> Some u
                  | None \<Rightarrow> getUser_default idp))
      in case authHeader of
           None \<Rightarrow> cookies
         | Some h \<Rightarrow>
             if h \<noteq> [] \<and> prefix ''Bearer '' h then
               (case getUser idp (replace_first ''Bearer '' [] h) of
                  Some u \<Rightarrow> Some u
                | None \<Rightarrow> cookies)
             else cookies)"

text \<open>The request of \<open>POST /api/push/subscribe\<close>; \<open>clock\<close> is the time of the request and
  \<open>uuid\<close> the identifier \<open>gen_random_uuid()\<close> would give a new row.\<close>

record subscribe_body =
  b_endpoint :: "string option"
  b_p256dh :: "string option"
  b_auth :: "string option"

record subscribe_request =
  authorization :: "string option"
  s_json :: "string + subscribe_body"
  clock :: nat
  uuid :: nat

datatype subscribe_response = Message string | Saved subscription_row

text \<open>
  The table as the client made by \<open>createAuthenticatedSupabaseClient(accessToken)\<close> sees it.
  \<open>uid\<close> is \<open>auth.uid()\<close> of the token; the row level security policies of the migration let
  a request see, insert and update only rows with \<open>user_id = auth.uid()\<close>.  The table has the
  primary key \<open>id\<close> and the constraint \<open>UNIQUE(user_id, endpoint)\<close>.
\<close>

text \<open>\<open>.select('id').eq('user_id', u).eq('endpoint', e).single()\<close>: the row when exactly one
  is found, otherwise \<open>data\<close> is \<open>null\<close>.\<close>

definition select_single :: "string option \<Rightarrow> string \<Rightarrow> string \<Rightarrow> world \<Rightarrow> nat option" where
  "select_single uid u e w =
     (case db_fault w of
        Some err \<Rightarrow> None
      | None \<Rightarrow>
          (case filter (\<lambda>r. Some (user_id r) = uid \<and> user_id r = u \<and> endpoint r = e) (rows w) of
             [r] \<Rightarrow> Some (row_id r)
           | _ \<Rightarrow> None))"

text \<open>\<open>.update(subscriptionData).eq('id', i).select().single()\<close>: an error, with the table as
  it was, unless exactly one visible row has that id and the new row passes the policy and
  the uniqueness constraint.\<close>

definition update_single ::
    "string option \<Rightarrow> nat \<Rightarrow> string \<Rightarrow> string \<Rightarrow> string \<Rightarrow> string \<Rightarrow> nat \<Rightarrow> world \<Rightarrow>
     (string + subscription_row) \<times> world" where
  "update_single uid i u e k a now w =
     (case db_fault w of
        Some err \<Rightarrow> (Inl err, w)
      | None \<Rightarrow>
          (case filter (\<lambda>r. Some (user_id r) = uid \<and> row_id r = i) (rows w) of
             [r] \<Rightarrow>
               if Some u \<noteq> uid then (Inl ''new row violates row-level security policy'', w)
               else if \<exists>x \<in> set (rows w). row_id x \<noteq> i \<and> user_id x = u \<and> endpoint x = e
               then (Inl ''duplicate key value violates unique constraint'', w)
               else
                 (let r' = r\<lparr>user_id := u, endpoint := e, p256dh := k, auth := a,
                              updated_at := now\<rparr>
                  in (Inr r', w\<lparr>rows := map (\<lambda>x. if Some (user_id x) = uid \<and> row_id x = i
                                                 then r' else x) (rows w)\<rparr>))
           | _ \<Rightarrow> (Inl ''JSON object requested, multiple (or no) rows returned'', w)))"

text \<open>\<open>.insert(subscriptionData).select().single()\<close>\<close>

definition insert_single ::
    "string option \<Rightarrow> nat \<Rightarrow> string \<Rightarrow> string \<Rightarrow> string \<Rightarrow> string \<Rightarrow> nat \<Rightarrow> world \<Rightarrow>
     (string + subscription_row) \<times> world" where
  "insert_single uid i u e k a now w =
     (case db_fault w of
        Some err \<Rightarrow> (Inl err, w)
      | None \<Rightarrow>
          if Some u \<noteq> uid then (Inl ''new row violates row-level security policy'', w)
          else if \<exists>x \<in> set (rows w). row_id x = i \<or> (user_id x = u \<and> endpoint x = e)
          then (Inl ''duplicate key value violates unique constraint'', w)
          else
            (let r = \<lparr>row_id = i, user_id = u, endpoint = e, p256dh = k, auth = a,
                      created_at = now, updated_at = now\<rparr>
             in (Inr r, w\<lparr>rows := rows w @ [r]\<rparr>)))"

text \<open>\<open>export async function POST(request)\<close> of \<open>/api/push/subscribe\<close>.\<close>

definition POST_subscribe :: "identity_provider \<Rightarrow> subscribe_request \<Rightarrow> world \<Rightarrow>
    (nat \<times> subscribe_response) \<times> world" where
  "POST_subscribe idp request w =
     (let accessToken = map_option (replace_first ''Bearer '' []) (authorization request) in
      if \<not> truthy accessToken then ((401, Message msg_token_missing), w)
      else case getServerUser idp (authorization request) of
        None \<Rightarrow> ((401, Message msg_not_authenticated), w)
      | Some user \<Rightarrow>
         (case s_json request of
            Inl err \<Rightarrow>
              ((500, Message (or_else (Some err) ''Erro ao salvar subscription'')), w)
          | Inr b \<Rightarrow>
              if \<not> truthy (b_endpoint b) \<or> \<not> truthy (b_p256dh b) \<or> \<not> truthy (b_auth b) then
                ((400, Message msg_subscription_fields_required), w)
              else
                (let uid = Option.bind accessToken (getUser idp);
                     e = or_else (b_endpoint b) [];
                     k = or_else (b_p256dh b) [];
                     a = or_else (b_auth b) [];
                     existing = select_single uid user e w;
                     saved = (case existing of
                                Some i \<Rightarrow> update_single uid i user e k a (clock request) w
                              | None \<Rightarrow> insert_single uid (uuid request) user e k a
                                          (clock request) w)
                 in case saved of
                      (Inl err, w') \<Rightarrow>
                        ((500, Message (or_else (Some err) ''Erro ao salvar subscription'')), w')
                    | (Inr result, w') \<Rightarrow> ((200, Saved result), w'))))"

section \<open>The subscription manager (client library)\<close>

datatype NotificationPermission = default | granted | denied

text \<open>An awaited promise resolves to a value, or stays pending for ever.\<close>

datatype 'a awaited = Resolved 'a | Pending

text \<open>
  The browser as the client library sees it: which globals exist, the permission, what the
  user answers to a prompt, how many prompts were shown, whether a service worker becomes
  active (\<open>navigator.serviceWorker.ready\<close> resolves), the current push subscription, the
  errors with which \<open>getSubscription()\<close> and \<open>unsubscribe()\<close> reject (if they do), and the
  requests the page has sent to the server, latest first.
\<close>

record platform =
  has_window :: bool
  has_serviceWorker :: bool
  has_PushManager :: bool
  has_Notification :: bool
  permission :: NotificationPermission
  prompt_answer :: NotificationPermission
  prompts :: nat
  worker_ready :: bool
  subscription :: "pushSubscription option"
  getSubscription_error :: "string option"
  unsubscribe_error :: "string option"
  requests :: "(string \<times> string) list"

definition isPushNotificationSupported :: "platform \<Rightarrow> bool" where
  "isPushNotificationSupported pf =
     (has_window pf \<and> has_serviceWorker pf \<and> has_PushManager pf \<and> has_Notification pf)"

definition getNotificationPermission :: "platform \<Rightarrow> NotificationPermission" where
  "getNotificationPermission pf =
     (if \<not> has_window pf \<or> \<not> has_Notification pf then denied else permission pf)"

text \<open>The messages of the two errors thrown by \<open>requestNotificationPermission\<close>, and the
  one returned by \<open>disablePushNotifications\<close>; the accented letters are Latin-1 codes.\<close>

definition not_supported_message :: string where
  "not_supported_message =
     ''Push notifications n'' @ [CHR 0xE3] @ ''o s'' @ [CHR 0xE3]
       @ ''o suportadas neste navegador''"

definition permission_denied_message :: string where
  "permission_denied_message =
     ''Permiss'' @ [CHR 0xE3] @ ''o de notifica'' @ [CHR 0xE7, CHR 0xE3]
       @ ''o foi negada. Por favor, habilite nas configura'' @ [CHR 0xE7, CHR 0xF5]
       @ ''es do navegador.''"

definition disable_not_supported_message :: string where
  "disable_not_supported_message =
     ''Push notifications n'' @ [CHR 0xE3] @ ''o suportadas''"

text \<open>\<open>requestNotificationPermission()\<close>: \<open>Inl\<close> is the message of the thrown \<open>Error\<close>.\<close>

definition requestNotificationPermission ::
    "platform \<Rightarrow> (string + NotificationPermission) \<times> platform" where
  "requestNotificationPermission pf =
     (if \<not> isPushNotificationSupported pf then (Inl not_supported_message, pf)
      else if permission pf = granted then (Inr granted, pf)
      else if permission pf = denied then (Inl permission_denied_message, pf)
      else (Inr (prompt_answer pf),
            pf\<lparr>prompts := Suc (prompts pf), permission := prompt_answer pf\<rparr>))"

text \<open>The object \<open>{ success, error? }\<close> returned by \<open>disablePushNotifications\<close>.\<close>

record disable_result =
  d_success :: bool
  d_error :: "string option"

text \<open>\<open>disablePushNotifications()\<close>\<close>

definition disablePushNotifications :: "platform \<Rightarrow> disable_result awaited \<times> platform" where
  "disablePushNotifications pf =
     (if \<not> isPushNotificationSupported pf then
        (Resolved \<lparr>d_success = False, d_error = Some disable_not_supported_message\<rparr>, pf)
      else if \<not> worker_ready pf then (Pending, pf)
      else case getSubscription_error pf of
        Some e \<Rightarrow>
          (Resolved \<lparr>d_success = False, d_error = Some (or_else (Some e) ''Erro desconhecido'')\<rparr>,
           pf)
      | None \<Rightarrow>
         (case subscription pf of
            None \<Rightarrow> (Resolved \<lparr>d_success = True, d_error = None\<rparr>, pf)
          | Some sub \<Rightarrow>
             (case unsubscribe_error pf of
                Some e \<Rightarrow>
                  (Resolved \<lparr>d_success = False,
                             d_error = Some (or_else (Some e) ''Erro desconhecido'')\<rparr>, pf)
              | None \<Rightarrow>
                  (Resolved \<lparr>d_success = True, d_error = None\<rparr>,
                   pf\<lparr>subscription := None\<rparr>))))"

section \<open>The subscription key codec\<close>

text \<open>The base64 alphabet; a sextet is a number below 64.\<close>

definition base64_alphabet :: string where
  "base64_alphabet =
     ''ABCDEFGHIJKLMNOPQRSTUVWXYZabcdefghijklmnopqrstuvwxyz0123456789+/''"

fun index_of :: "'a \<Rightarrow> 'a list \<Rightarrow> nat option" where
  "index_of c [] = None"
| "index_of c (x # xs) = (if c = x then Some 0 else map_option Suc (index_of c xs))"

definition sextet_of_char :: "char \<Rightarrow> nat option" where
  "sextet_of_char c = index_of c base64_alphabet"

definition char_of_sextet :: "nat \<Rightarrow> char" where
  "char_of_sextet n = base64_alphabet ! n"

text \<open>Groups of four sextets give three bytes; a last group of three gives two bytes and
  one of two gives one byte, the remaining bits being dropped.\<close>

fun decode_sextets :: "nat list \<Rightarrow> nat list" where
  "decode_sextets (a # b # c # d # rest) =
     [a * 4 + b div 16, (b mod 16) * 16 + c div 4, (c mod 4) * 64 + d] @ decode_sextets rest"
| "decode_sextets [a, b, c] = [a * 4 + b div 16, (b mod 16) * 16 + c div 4]"
| "decode_sextets [a, b] = [a * 4 + b div 16]"
| "decode_sextets [a] = []"
| "decode_sextets [] = []"

definition is_ascii_whitespace :: "char \<Rightarrow> bool" where
  "is_ascii_whitespace c = (c \<in> {CHR 0x09, CHR 0x0A, CHR 0x0C, CHR 0x0D, CHR 0x20})"

text \<open>Removes one or two \<open>=\<close> from the end.\<close>

definition strip_padding :: "string \<Rightarrow> string" where
  "strip_padding s =
     (if s \<noteq> [] \<and> last s = CHR ''='' then
        (if butlast s \<noteq> [] \<and> last (butlast s) = CHR ''='' then butlast (butlast s)
         else butlast s)
      else s)"

text \<open>
  \<open>window.atob\<close> (forgiving base64 decoding): whitespace is removed; when the length is a
  multiple of four, one or two \<open>=\<close> at the end are removed; a length of 1 modulo 4 or a
  character outside the alphabet is an error (\<open>None\<close>).  The result is the list of the
  character codes of the binary string.
\<close>

definition atob :: "string \<Rightarrow> nat list option" where
  "atob input =
     (let d = filter (\<lambda>c. \<not> is_ascii_whitespace c) input;
          d' = (if length d mod 4 = 0 then strip_padding d else d)
      in if length d' mod 4 = 1 then None
         else map_option decode_sextets (those (map sextet_of_char d')))"

fun encode_bytes :: "nat list \<Rightarrow> string" where
  "encode_bytes (x # y # z # rest) =
     [char_of_sextet (x div 4), char_of_sextet ((x mod 4) * 16 + y div 16),
      char_of_sextet ((y mod 16) * 4 + z div 64), char_of_sextet (z mod 64)] @ encode_bytes rest"
| "encode_bytes [x, y] =
     [char_of_sextet (x div 4), char_of_sextet ((x mod 4) * 16 + y div 16),
      char_of_sextet ((y mod 16) * 4), CHR ''='']"
| "encode_bytes [x] =
     [char_of_sextet (x div 4), char_of_sextet ((x mod 4) * 16), CHR ''='', CHR ''='']"
| "encode_bytes [] = []"

text \<open>\<open>window.btoa\<close> on the string with the given character codes: a code above 255 is an
  error.\<close>

definition btoa :: "nat list \<Rightarrow> string option" where
  "btoa codes = (if \<forall>c \<in> set codes. c < 256 then Some (encode_bytes codes) else None)"

text \<open>The local \<open>base64\<close> of \<open>urlBase64ToUint8Array\<close>:
  \<open>(base64String + padding).replace(/-/g, '+').replace(/_/g, '/')\<close>.\<close>

definition base64 :: "string \<Rightarrow> string" where
  "base64 base64String =
     (let padding = replicate ((4 - length base64String mod 4) mod 4) CHR ''=''
      in map (\<lambda>c. if c = CHR ''_'' then CHR ''/'' else c)
           (map (\<lambda>c. if c = CHR ''-'' then CHR ''+'' else c) (base64String @ padding)))"

text \<open>\<open>urlBase64ToUint8Array\<close>: \<open>None\<close> when \<open>atob\<close> throws.\<close>

definition urlBase64ToUint8Array :: "string \<Rightarrow> nat list option" where
  "urlBase64ToUint8Array base64String = atob (base64 base64String)"

text \<open>\<open>btoa(String.fromCharCode(...new Uint8Array(key)))\<close> of \<open>createPushSubscription\<close>, on
  the bytes of the key (the elements of a \<open>Uint8Array\<close> are below 256).\<close>

definition encodeKey :: "nat list \<Rightarrow> string option" where
  "encodeKey bytes = btoa bytes"

section \<open>The service worker\<close>

subsection \<open>Fetch\<close>

record fetch_request =
  request_method :: string
  request_url :: string

datatype response = Response nat string

text \<open>What the \<open>fetch\<close> listener does with an event: it returns without calling
  \<open>respondWith\<close>, or it responds with a promise that resolves to a response (\<open>Inr\<close>) or
  rejects with an error (\<open>Inl\<close>).\<close>

datatype fetch_outcome = NotIntercepted | RespondWith "string + response"

text \<open>The \<open>fetch\<close> listener; \<open>network\<close> is \<open>fetch(event.request)\<close>, \<open>cache\<close> is
  \<open>caches.match(event.request)\<close>.  The stored cache is returned as the listener leaves it.\<close>

definition fetch_listener ::
    "(fetch_request \<Rightarrow> string + response) \<Rightarrow> (fetch_request \<rightharpoonup> response) \<Rightarrow> fetch_request \<Rightarrow>
     fetch_outcome \<times> (fetch_request \<rightharpoonup> response)" where
  "fetch_listener network cache request =
     (if request_method request \<noteq> ''GET'' then (NotIntercepted, cache)
      else
        (RespondWith
           (case network request of
              Inr resp \<Rightarrow> Inr resp
            | Inl err \<Rightarrow>
                (case cache request of
                   Some cachedResponse \<Rightarrow> Inr cachedResponse
                 | None \<Rightarrow> Inl err)),
         cache))"

subsection \<open>Push\<close>

text \<open>JSON values; an object is the list of its members (the first entry of a key counts).
  A JavaScript value that may be \<open>undefined\<close> is a \<open>json option\<close>.\<close>

datatype json_value =
    JNull
  | JBool bool
  | JNum int
  | JStr string
  | JArr "json_value list"
  | JObj "(string \<times> json_value) list"

text \<open>Truthiness of a JavaScript value.\<close>

fun js_truthy :: "json_value option \<Rightarrow> bool" where
  "js_truthy None = False"
| "js_truthy (Some JNull) = False"
| "js_truthy (Some (JBool b)) = b"
| "js_truthy (Some (JNum n)) = (n \<noteq> 0)"
| "js_truthy (Some (JStr s)) = (s \<noteq> [])"
| "js_truthy (Some (JArr xs)) = True"
| "js_truthy (Some (JObj kvs)) = True"

text \<open>\<open>a || b\<close> where \<open>b\<close> is a value that is there.\<close>

definition js_or :: "json_value option \<Rightarrow> json_value \<Rightarrow> json_value" where
  "js_or a b = (case a of None \<Rightarrow> b | Some v \<Rightarrow> if js_truthy (Some v) then v else b)"

text \<open>\<open>payload.name\<close> for one of the names the listener reads: a \<open>TypeError\<close> on \<open>null\<close>
  (\<open>None\<close>), the member of an object, \<open>undefined\<close> on any other value.\<close>

fun property :: "json_value \<Rightarrow> string \<Rightarrow> json_value option option" where
  "property JNull name = None"
| "property (JObj kvs) name = Some (map_of kvs name)"
| "property v name = Some None"

text \<open>\<open>event.data\<close>: its text, and what \<open>json()\<close> returns (\<open>None\<close> when it throws).\<close>

record PushMessageData =
  text_of :: string
  json_of :: "json_value option"

record notificationData =
  n_title :: json_value
  n_body :: json_value
  n_icon :: json_value
  n_badge :: json_value
  n_tag :: json_value
  n_data :: json_value
  requireInteraction :: "json_value option"
  vibrate :: "json_value option"
  timestamp :: "json_value option"

definition default_title :: string where
  "default_title = ''VisitaFlow T'' @ [CHR 0xE9] @ ''cnico''"

definition default_body :: string where
  "default_body =
     ''Voc'' @ [CHR 0xEA] @ '' tem uma nova notifica'' @ [CHR 0xE7, CHR 0xE3] @ ''o''"

definition default_notificationData :: notificationData where
  "default_notificationData =
     \<lparr> n_title = JStr default_title, n_body = JStr default_body, n_icon = JStr ''/icon.svg'',
       n_badge = JStr ''/icon.svg'', n_tag = JStr ''visitaflow-notification'', n_data = JObj [],
       requireInteraction = None, vibrate = None, timestamp = None \<rparr>"

text \<open>The object literal assigned inside \<open>try\<close>; \<open>None\<close> when reading a property of
  \<open>payload\<close> throws.\<close>

definition from_payload :: "nat \<Rightarrow> json_value \<Rightarrow> notificationData option" where
  "from_payload now payload =
     (case (property payload ''title'', property payload ''body'', property payload ''icon'',
            property payload ''badge'', property payload ''tag'', property payload ''data'',
            property payload ''requireInteraction'', property payload ''vibrate'') of
        (Some t, Some b, Some i, Some g, Some tg, Some d, Some r, Some v) \<Rightarrow>
          Some \<lparr> n_title = js_or t (n_title default_notificationData),
                 n_body = js_or b (n_body default_notificationData),
                 n_icon = js_or i (n_icon default_notificationData),
                 n_badge = js_or g (n_badge default_notificationData),
                 n_tag = js_or tg (n_tag default_notificationData),
                 n_data = js_or d (n_data default_notificationData),
                 requireInteraction = Some (js_or r (JBool False)),
                 vibrate = Some (js_or v (JArr [JNum 200, JNum 100, JNum 200])),
                 timestamp = Some (JNum (int now)) \<rparr>
      | _ \<Rightarrow> None)"

text \<open>The \<open>catch\<close> branch: \<open>notificationData.body = event.data.text() || notificationData.body\<close>.\<close>

definition from_text :: "string \<Rightarrow> notificationData" where
  "from_text txt =
     default_notificationData
       \<lparr>n_body := js_or (Some (JStr txt)) (n_body default_notificationData)\<rparr>"

text \<open>The \<open>push\<close> listener: the \<open>notificationData\<close> it hands to \<open>showNotification\<close> (which
  gets \<open>actions: []\<close> besides); \<open>now\<close> is \<open>Date.now()\<close>.\<close>

definition push_listener :: "nat \<Rightarrow> PushMessageData option \<Rightarrow> notificationData" where
  "push_listener now event_data =
     (case event_data of
        None \<Rightarrow> default_notificationData
      | Some d \<Rightarrow>
          (case json_of d of
             None \<Rightarrow> from_text (text_of d)
           | Some payload \<Rightarrow>
               (case from_payload now payload of
                  None \<Rightarrow> from_text (text_of d)
                | Some n \<Rightarrow> n)))"

section \<open>Notions used in the statements\<close>

text \<open>What the callback returns for a row: it depends on the gateway's answer only.\<close>

definition task_value :: "gateway \<Rightarrow> wire_payload \<Rightarrow> subscription_row \<Rightarrow> task_result" where
  "task_value gw payload r =
     (case gw (pushSubscription_of r) payload of
        Delivered \<Rightarrow> \<lparr>t_success = True, subscriptionId = row_id r, t_error = None\<rparr>
      | Rejected c msg \<Rightarrow> \<lparr>t_success = False, subscriptionId = row_id r, t_error = Some msg\<rparr>)"

text \<open>The gateway call for a row fails; it fails with status code 410.\<close>

definition call_fails :: "gateway \<Rightarrow> wire_payload \<Rightarrow> subscription_row \<Rightarrow> bool" where
  "call_fails gw payload r = (gw (pushSubscription_of r) payload \<noteq> Delivered)"

definition gone :: "gateway \<Rightarrow> wire_payload \<Rightarrow> subscription_row \<Rightarrow> bool" where
  "gone gw payload r =
     (case gw (pushSubscription_of r) payload of
        Delivered \<Rightarrow> False
      | Rejected c msg \<Rightarrow> c = Some 410)"


text \<open>The constraints of the table: the data store answers, \<open>id\<close> is a key and so is
  \<open>(user_id, endpoint)\<close>.\<close>

definition table_ok :: "world \<Rightarrow> bool" where
  "table_ok w = (db_fault w = None \<and> distinct (map row_id (rows w))
                 \<and> distinct (map (\<lambda>r. (user_id r, endpoint r)) (rows w)))"

text \<open>The rows of a user for an endpoint.\<close>

definition owned :: "string \<Rightarrow> string \<Rightarrow> subscription_row list \<Rightarrow> subscription_row list" where
  "owned u e rs = filter (\<lambda>r. user_id r = u \<and> endpoint r = e) rs"

text \<open>The base64url alphabet, and the two substitutions of \<open>urlBase64ToUint8Array\<close> on
  one character.\<close>

definition base64url_alphabet :: string where
  "base64url_alphabet =
     ''ABCDEFGHIJKLMNOPQRSTUVWXYZabcdefghijklmnopqrstuvwxyz0123456789-_''"

definition to_standard :: "char \<Rightarrow> char" where
  "to_standard c = (\<lambda>c. if c = CHR ''_'' then CHR ''/'' else c) (if c = CHR ''-'' then CHR ''+'' else c)"

text \<open>The bits of the last sextet that do not reach a byte are zero, as an encoder
  leaves them; a single left-over sextet encodes nothing.\<close>

fun tail_ok :: "nat list \<Rightarrow> bool" where
  "tail_ok (a # b # c # d # rest) = tail_ok rest"
| "tail_ok [a, b, c] = (c mod 4 = 0)"
| "tail_ok [a, b] = (b mod 16 = 0)"
| "tail_ok [a] = False"
| "tail_ok [] = True"

text \<open>
  A valid base64url string: characters of the base64url alphabet, then either no padding or
  the full padding of \<open>=\<close>; the number of characters is not 1 modulo 4 and the unused bits
  are zero.
\<close>

definition valid_base64url :: "string \<Rightarrow> bool" where
  "valid_base64url x =
     (let stem = takeWhile (\<lambda>c. c \<noteq> CHR ''='') x;
          pad = dropWhile (\<lambda>c. c \<noteq> CHR ''='') x
      in (pad = [] \<or> pad = replicate ((4 - length stem mod 4) mod 4) CHR ''='')
         \<and> (case those (map (\<lambda>c. index_of c base64url_alphabet) stem) of
              None \<Rightarrow> False
            | Some ss \<Rightarrow> tail_ok ss))"

text \<open>
  A base64url encoder, to say which strings are encodings: the standard encoding with
  \<open>+\<close> written \<open>-\<close> and \<open>/\<close> written \<open>_\<close>, with the padding or without it; and the
  sextets in which the bytes are cut.
\<close>

definition to_url_safe :: "char \<Rightarrow> char" where
  "to_url_safe c = (if c = CHR ''+'' then CHR ''-'' else if c = CHR ''/'' then CHR ''_'' else c)"

definition base64url_encode :: "bool \<Rightarrow> nat list \<Rightarrow> string" where
  "base64url_encode padded bytes =
     (let s = map to_url_safe (encode_bytes bytes)
      in if padded then s else takeWhile (\<lambda>c. c \<noteq> CHR ''='') s)"

fun sextets_of_bytes :: "nat list \<Rightarrow> nat list" where
  "sextets_of_bytes (x # y # z # rest) =
     [x div 4, (x mod 4) * 16 + y div 16, (y mod 16) * 4 + z div 64, z mod 64]
       @ sextets_of_bytes rest"
| "sextets_of_bytes [x, y] = [x div 4, (x mod 4) * 16 + y div 16, (y mod 16) * 4]"
| "sextets_of_bytes [x] = [x div 4, (x mod 4) * 16]"
| "sextets_of_bytes [] = []"

section \<open>Concrete inputs\<close>

definition demo_env :: environment where
  "demo_env = \<lparr> VAPID_PUBLIC_KEY = Some ''BExample'', VAPID_PRIVATE_KEY = Some ''private'',
                 VAPID_SUBJECT = Some ''mailto:ops@example.com'', INTERNAL_SECRET = Some ''s3cret'',
                 SUPABASE_SERVICE_ROLE_KEY = Some ''service-role'' \<rparr>"

definition demo_row :: "nat \<Rightarrow> string \<Rightarrow> string \<Rightarrow> subscription_row" where
  "demo_row i u e = \<lparr> row_id = i, user_id = u, endpoint = e, p256dh = ''p256'', auth = ''auth'',
                      created_at = 0, updated_at = 0 \<rparr>"

definition demo_rows :: "subscription_row list" where
  "demo_rows = [demo_row 1 ''u1'' ''https://push.example/a'',
                demo_row 2 ''u1'' ''https://push.example/b'',
                demo_row 3 ''u2'' ''https://push.example/c'']"

definition demo_world :: world where
  "demo_world = \<lparr> rows = demo_rows, db_fault = None, trace = [] \<rparr>"

definition empty_world :: world where
  "empty_world = \<lparr> rows = [], db_fault = None, trace = [] \<rparr>"

text \<open>A gateway that delivers to endpoint \<open>a\<close>, answers 410 for \<open>b\<close> and 500 for the rest.\<close>

definition demo_gateway :: gateway where
  "demo_gateway ps payload =
     (case ps of PushSubscription e k a \<Rightarrow>
        if e = ''https://push.example/a'' then Delivered
        else if e = ''https://push.example/b'' then Rejected (Some 410) ''Gone''
        else Rejected (Some 500) ''Internal Server Error'')"

definition demo_payload :: push_payload where
  "demo_payload = \<lparr> userId = None, title = Some ''T'', body = Some ''B'', icon = None,
                     badge = None, tag = None, data = None, url = None \<rparr>"

definition demo_request :: send_request where
  "demo_request = \<lparr> x_internal_secret = Some ''s3cret'', json = Inr demo_payload \<rparr>"

definition demo_platform :: platform where
  "demo_platform = \<lparr> has_window = True, has_serviceWorker = True, has_PushManager = True,
                      has_Notification = True, permission = granted, prompt_answer = granted,
                      prompts = 0, worker_ready = True,
                      subscription = Some (PushSubscription ''https://push.example/a'' ''p256'' ''auth''),
                      getSubscription_error = None, unsubscribe_error = None,
                      requests = [(''POST'', ''/api/push/subscribe'')] \<rparr>"

definition demo_network :: "fetch_request \<Rightarrow> string + response" where
  "demo_network request =
     (if request_url request = ''/dashboard'' then Inr (Response 200 ''fresh'')
      else Inl ''TypeError: Failed to fetch'')"

definition demo_cache :: "fetch_request \<rightharpoonup> response" where
  "demo_cache = Map.empty
     (\<lparr>request_method = ''GET'', request_url = ''/offline''\<rparr> \<mapsto> Response 200 ''cached'',
      \<lparr>request_method = ''GET'', request_url = ''/dashboard''\<rparr> \<mapsto> Response 200 ''stale'')"

definition demo_idp :: identity_provider where
  "demo_idp = \<lparr> getUser = (\<lambda>t. if t = ''token-u1'' then Some ''u1'' else None),
                 cookie_session = None, cookie_token = None, getUser_default = None \<rparr>"

definition demo_subscribe :: "string \<Rightarrow> string \<Rightarrow> nat \<Rightarrow> nat \<Rightarrow> subscribe_request" where
  "demo_subscribe k a now i =
     \<lparr> authorization = Some ''Bearer token-u1'',
       s_json = Inr \<lparr>b_endpoint = Some ''https://push.example/new'', b_p256dh = Some k,
                      b_auth = Some a\<rparr>,
       clock = now, uuid = i \<rparr>"

section \<open>The dispatcher: results and pruning\<close>

lemma fst_sendTask: "fst (sendTask gw p r w) = task_value gw p r"
  by (simp add: sendTask_def task_value_def Let_def split: gateway_outcome.split)

lemma rows_sendTask:
  "db_fault w = None \<Longrightarrow>
   rows (snd (sendTask gw p r w)) = (if gone gw p r then filter (\<lambda>x. row_id x \<noteq> row_id r) (rows w) else rows w)"
  by (simp add: sendTask_def gone_def db_delete_def Let_def split: gateway_outcome.split)

lemma fault_sendTask: "db_fault (snd (sendTask gw p r w)) = db_fault w"
  by (simp add: sendTask_def db_delete_def Let_def split: gateway_outcome.split option.split)

lemma length_settle: "length (fst (settle gw p subs order (res, w))) = length res"
  by (induction order arbitrary: res w) (auto split: prod.split)

lemma fault_settle: "db_fault (snd (settle gw p subs order (res, w))) = db_fault w"
proof (induction order arbitrary: res w)
  case Nil show ?case by simp
next
  case (Cons i order)
  show ?case
  proof (cases "i < length subs")
    case True
    obtain r w' where tw: "sendTask gw p (subs ! i) w = (r, w')" by (cases "sendTask gw p (subs ! i) w")
    have "db_fault w' = db_fault w" using fault_sendTask [of gw p "subs ! i" w] tw by simp
    with True tw Cons.IH [of "res[i := Some r]" w'] show ?thesis by simp
  next
    case False with Cons.IH show ?thesis by simp
  qed
qed

lemma nth_settle:
  "length res = length subs \<Longrightarrow> k < length subs \<Longrightarrow>
   fst (settle gw p subs order (res, w)) ! k =
     (if k \<in> set order then Some (task_value gw p (subs ! k)) else res ! k)"
proof (induction order arbitrary: res w)
  case Nil show ?case by simp
next
  case (Cons i order)
  show ?case
  proof (cases "i < length subs")
    case True
    obtain r w' where tw: "sendTask gw p (subs ! i) w = (r, w')" by (cases "sendTask gw p (subs ! i) w")
    have r: "r = task_value gw p (subs ! i)" using fst_sendTask [of gw p "subs ! i" w] tw by simp
    have len: "length (res[i := Some r]) = length subs" using Cons.prems by simp
    show ?thesis
      using True tw r Cons.IH [OF len Cons.prems(2), of w'] Cons.prems
      by (auto simp: nth_list_update)
  next
    case False
    with Cons.IH [OF Cons.prems, of w] Cons.prems show ?thesis by auto
  qed
qed

lemma rows_settle:
  "db_fault w = None \<Longrightarrow>
   rows (snd (settle gw p subs order (res, w))) =
     filter (\<lambda>x. \<not> (\<exists>i \<in> set order. i < length subs \<and> gone gw p (subs ! i) \<and> row_id (subs ! i) = row_id x)) (rows w)"
proof (induction order arbitrary: res w)
  case Nil show ?case by simp
next
  case (Cons i order)
  show ?case
  proof (cases "i < length subs")
    case True
    obtain r w' where tw: "sendTask gw p (subs ! i) w = (r, w')" by (cases "sendTask gw p (subs ! i) w")
    have f: "db_fault w' = None" using fault_sendTask [of gw p "subs ! i" w] tw Cons.prems by simp
    have rw: "rows w' = (if gone gw p (subs ! i) then filter (\<lambda>x. row_id x \<noteq> row_id (subs ! i)) (rows w) else rows w)"
      using rows_sendTask [OF Cons.prems, of gw p "subs ! i"] tw by simp
    show ?thesis
      using True tw Cons.IH [OF f, of "res[i := Some r]"] rw
      by (auto intro!: filter_cong)
  next
    case False
    with Cons.IH [OF Cons.prems, of res] show ?thesis by (auto intro!: filter_cong)
  qed
qed

lemma results_complete:
  assumes "set order = {..<length subs}"
  shows "fst (settle gw p subs order (replicate (length subs) None, w)) = map (\<lambda>r. Some (task_value gw p r)) subs"
proof (rule nth_equalityI)
  show "length (fst (settle gw p subs order (replicate (length subs) None, w))) = length (map (\<lambda>r. Some (task_value gw p r)) subs)"
    by (simp add: length_settle)
next
  fix k assume "k < length (fst (settle gw p subs order (replicate (length subs) None, w)))"
  then have k: "k < length subs" by (simp add: length_settle)
  then show "fst (settle gw p subs order (replicate (length subs) None, w)) ! k = map (\<lambda>r. Some (task_value gw p r)) subs ! k"
    using assms nth_settle [of "replicate (length subs) None" subs k gw p order w] by simp
qed

lemma successful_map:
  "successful (map (\<lambda>r. Some (task_value gw p r)) subs) = length subs - length (filter (call_fails gw p) subs)"
proof -
  have "successful (map (\<lambda>r. Some (task_value gw p r)) subs) = length (filter (\<lambda>r. \<not> call_fails gw p r) subs)"
    unfolding successful_def
    by (induction subs) (auto simp: task_value_def call_fails_def split: gateway_outcome.split)
  moreover have "length (filter (\<lambda>r. \<not> call_fails gw p r) subs) + length (filter (call_fails gw p) subs) = length subs"
    using sum_length_filter_compl [of "call_fails gw p" subs] by simp
  ultimately show ?thesis by simp
qed

lemma matching_subset: "set (matching u rs) \<subseteq> set rs"
  by (auto simp: matching_def)

lemma kept_rows:
  assumes d: "distinct (map row_id rs)" and sub: "set subs \<subseteq> set rs" and ord: "set order = {..<length subs}"
  shows "filter (\<lambda>x. \<not> (\<exists>i \<in> set order. i < length subs \<and> gone gw p (subs ! i) \<and> row_id (subs ! i) = row_id x)) rs
       = filter (\<lambda>x. \<not> (x \<in> set subs \<and> gone gw p x)) rs"
proof (rule filter_cong [OF refl])
  fix x assume x: "x \<in> set rs"
  have inj: "inj_on row_id (set rs)" using d by (simp add: distinct_map)
  have "(\<exists>i \<in> set order. i < length subs \<and> gone gw p (subs ! i) \<and> row_id (subs ! i) = row_id x)
        \<longleftrightarrow> (x \<in> set subs \<and> gone gw p x)"
  proof
    assume "\<exists>i \<in> set order. i < length subs \<and> gone gw p (subs ! i) \<and> row_id (subs ! i) = row_id x"
    then obtain i where i: "i < length subs" "gone gw p (subs ! i)" "row_id (subs ! i) = row_id x" by blast
    have "subs ! i \<in> set rs" using i(1) sub by (meson nth_mem subsetD)
    then have "subs ! i = x" using inj x i(3) by (auto dest: inj_onD)
    with i show "x \<in> set subs \<and> gone gw p x" by (metis nth_mem)
  next
    assume a: "x \<in> set subs \<and> gone gw p x"
    then obtain i where "i < length subs" "subs ! i = x" by (auto simp: in_set_conv_nth)
    with a ord show "\<exists>i \<in> set order. i < length subs \<and> gone gw p (subs ! i) \<and> row_id (subs ! i) = row_id x"
      by auto
  qed
  then show "(\<not> (\<exists>i \<in> set order. i < length subs \<and> gone gw p (subs ! i) \<and> row_id (subs ! i) = row_id x))
       = (\<not> (x \<in> set subs \<and> gone gw p x))" by simp
qed

lemma settle_complete:
  assumes "db_fault w = None" "distinct (map row_id (rows w))" "set subs \<subseteq> set (rows w)"
    and "set order = {..<length subs}"
  shows "settle gw p subs order (replicate (length subs) None, w1) = (results, w2) \<Longrightarrow>
         rows w1 = rows w \<Longrightarrow> db_fault w1 = None \<Longrightarrow>
         successful results = length subs - length (filter (call_fails gw p) subs)
       \<and> length results - successful results = length (filter (call_fails gw p) subs)
       \<and> rows w2 = filter (\<lambda>x. \<not> (x \<in> set subs \<and> gone gw p x)) (rows w)"
proof -
  assume s: "settle gw p subs order (replicate (length subs) None, w1) = (results, w2)"
    and r: "rows w1 = rows w" and f: "db_fault w1 = None"
  have res: "results = map (\<lambda>r. Some (task_value gw p r)) subs"
    using results_complete [OF assms(4), of gw p w1] s by simp
  have le: "length (filter (call_fails gw p) subs) \<le> length subs" by simp
  have "rows w2 = filter (\<lambda>x. \<not> (\<exists>i \<in> set order. i < length subs \<and> gone gw p (subs ! i) \<and> row_id (subs ! i) = row_id x)) (rows w1)"
    using rows_settle [OF f, of gw p subs order "replicate (length subs) None"] s by simp
  then have "rows w2 = filter (\<lambda>x. \<not> (x \<in> set subs \<and> gone gw p x)) (rows w)"
    using kept_rows [OF assms(2) assms(3) assms(4), of gw p] r by simp
  with res le show ?thesis by (simp add: successful_map)
qed

lemma db_select_ok:
  "db_fault w = None \<Longrightarrow>
   db_select u w = (Inr (matching u (rows w)), w\<lparr>trace := DbSelect (if truthy u then u else None) # trace w\<rparr>)"
  by (simp add: db_select_def Let_def)

lemma demo_secret: "internalSecret demo_env = ''s3cret''"
  by (simp add: internalSecret_def demo_env_def or_else_def)

lemma demo_matching: "matching (userId demo_payload) (rows demo_world) = demo_rows"
  by (simp add: matching_def demo_payload_def demo_world_def truthy_def)

text \<open>
  Claim C1, as the code has it.  Let \<open>N\<close> rows match the target and let the gateway call fail
  for \<open>K\<close> of them.  With the VAPID keys and the service key configured, title and body given
  and the table answering, the library function \<open>sendPushNotificationServer\<close> returns
  \<open>success = true\<close>, \<open>sent = N - K\<close> and \<open>failed = K\<close> (it has no field \<open>total\<close>), and for
  \<open>N > 0\<close> the endpoint \<open>POST /api/push/send\<close> answers 200 with \<open>sent = N - K\<close>,
  \<open>failed = K\<close> and \<open>total = N\<close>.  In both, the rows left in the table are exactly those that
  are not matched rows whose gateway call was rejected with status 410.  This holds for every
  order in which the concurrent sends complete: neither side of the equations depends on
  \<open>order\<close>.
\<close>

theorem dispatcher_counts_and_pruning:
  assumes vapid: "truthy (VAPID_PUBLIC_KEY env)" "truthy (VAPID_PRIVATE_KEY env)"
    and key: "truthy (SUPABASE_SERVICE_ROLE_KEY env)"
    and payload: "truthy (title p)" "truthy (body p)"
    and store: "db_fault w = None" "distinct (map row_id (rows w))"
    and order: "set order = {..<length (matching (userId p) (rows w))}"
  shows "let subs = matching (userId p) (rows w);
             N = length subs;
             K = length (filter (call_fails gw (notificationPayload p)) subs);
             kept = filter (\<lambda>r. \<not> (r \<in> set subs \<and> gone gw (notificationPayload p) r)) (rows w)
         in fst (sendPushNotificationServer env gw order p w)
              = empty_object\<lparr>success := Some True, sent := Some (N - K), failed := Some K\<rparr>
          \<and> rows (snd (sendPushNotificationServer env gw order p w)) = kept
          \<and> (N \<noteq> 0 \<and> x_internal_secret request = Some (internalSecret env) \<and> json request = Inr p \<longrightarrow>
               fst (POST_send env gw order request w)
                 = (200, empty_object\<lparr>success := Some True, sent := Some (N - K),
                                       failed := Some K, total := Some N\<rparr>)
             \<and> rows (snd (POST_send env gw order request w)) = kept)"
proof -
  define subs where "subs = matching (userId p) (rows w)"
  define w1 where "w1 = w\<lparr>trace := DbSelect (if truthy (userId p) then userId p else None) # trace w\<rparr>"
  define pl where "pl = notificationPayload p"
  have sel: "db_select (userId p) w = (Inr subs, w1)"
    using db_select_ok [OF store(1)] by (simp add: subs_def w1_def)
  have w1: "rows w1 = rows w" "db_fault w1 = None" using store(1) by (simp_all add: w1_def)
  have sub: "set subs \<subseteq> set (rows w)" by (simp add: subs_def matching_subset)
  have ord: "set order = {..<length subs}" using order by (simp add: subs_def)
  obtain results w2 where s: "settle gw pl subs order (replicate (length subs) None, w1) = (results, w2)"
    by (cases "settle gw pl subs order (replicate (length subs) None, w1)")
  note fin = settle_complete [OF store(1) store(2) sub ord s w1]
  have adm: "createAdminSupabaseClient env = Inr ()" using key by (simp add: createAdminSupabaseClient_def)
  have lib: "sendPushNotificationServer env gw order p w =
      (if subs = [] then (empty_object\<lparr>success := Some True, sent := Some 0, failed := Some 0\<rparr>, w1)
       else (empty_object\<lparr>success := Some True, sent := Some (successful results),
                 failed := Some (length results - successful results)\<rparr>, w2))"
    using vapid payload adm sel s by (simp add: sendPushNotificationServer_def pl_def)
  have api: "x_internal_secret request = Some (internalSecret env) \<Longrightarrow> json request = Inr p \<Longrightarrow> subs \<noteq> [] \<Longrightarrow>
      POST_send env gw order request w =
        ((200, empty_object\<lparr>success := Some True, sent := Some (successful results),
                 failed := Some (length results - successful results), total := Some (length subs)\<rparr>), w2)"
    using vapid payload adm sel s by (simp add: POST_send_def pl_def)
  have empty: "subs = [] \<Longrightarrow> filter (\<lambda>r. \<not> (r \<in> set subs \<and> gone gw pl r)) (rows w) = rows w" by simp
  show ?thesis
    unfolding Let_def subs_def [symmetric] pl_def [symmetric]
    using lib api fin w1 empty by (cases "subs = []") auto
qed

text \<open>The theorem at three rows, of which one is delivered, one is gone (410) and one
  fails with 500, the sends completing in the order 2, 0, 1.\<close>

theorem dispatcher_counts_and_pruning_witness:
  "truthy (VAPID_PUBLIC_KEY demo_env) \<and> truthy (VAPID_PRIVATE_KEY demo_env)
   \<and> truthy (SUPABASE_SERVICE_ROLE_KEY demo_env)
   \<and> truthy (title demo_payload) \<and> truthy (body demo_payload)
   \<and> db_fault demo_world = None \<and> distinct (map row_id (rows demo_world))
   \<and> set [2, 0, 1] = {..<length (matching (userId demo_payload) (rows demo_world))}
   \<and> x_internal_secret demo_request = Some (internalSecret demo_env)
   \<and> json demo_request = Inr demo_payload
   \<and> fst (sendPushNotificationServer demo_env demo_gateway [2, 0, 1] demo_payload demo_world)
        = empty_object\<lparr>success := Some True, sent := Some 1, failed := Some 2\<rparr>
   \<and> fst (POST_send demo_env demo_gateway [2, 0, 1] demo_request demo_world)
        = (200, empty_object\<lparr>success := Some True, sent := Some 1, failed := Some 2, total := Some 3\<rparr>)
   \<and> rows (snd (POST_send demo_env demo_gateway [2, 0, 1] demo_request demo_world))
        = [demo_row 1 ''u1'' ''https://push.example/a'', demo_row 3 ''u2'' ''https://push.example/c'']
   \<and> rows (snd (sendPushNotificationServer demo_env demo_gateway [2, 0, 1] demo_payload demo_world))
        = [demo_row 1 ''u1'' ''https://push.example/a'', demo_row 3 ''u2'' ''https://push.example/c'']"
proof -
  have h1: "truthy (VAPID_PUBLIC_KEY demo_env)" and h2: "truthy (VAPID_PRIVATE_KEY demo_env)"
    and h3: "truthy (SUPABASE_SERVICE_ROLE_KEY demo_env)"
    by (simp_all add: demo_env_def truthy_def)
  have h4: "truthy (title demo_payload)" and h5: "truthy (body demo_payload)"
    by (simp_all add: demo_payload_def truthy_def)
  have h6: "db_fault demo_world = None" by (simp add: demo_world_def)
  have h7: "distinct (map row_id (rows demo_world))"
    by (simp add: demo_world_def demo_rows_def demo_row_def)
  have h8: "set [2, 0, 1] = {..<length (matching (userId demo_payload) (rows demo_world))}"
    by (auto simp: demo_matching demo_rows_def)
  have h9: "x_internal_secret demo_request = Some (internalSecret demo_env)"
    by (simp add: demo_request_def demo_secret)
  have h10: "json demo_request = Inr demo_payload" by (simp add: demo_request_def)
  have g: "call_fails demo_gateway pl (demo_row i u e) = (e \<noteq> ''https://push.example/a'')"
          "gone demo_gateway pl (demo_row i u e) = (e = ''https://push.example/b'')" for pl i u e
    by (simp_all add: call_fails_def gone_def demo_gateway_def pushSubscription_of_def demo_row_def)
  have r: "rows demo_world = demo_rows" by (simp add: demo_world_def)
  note t = dispatcher_counts_and_pruning [OF h1 h2 h3 h4 h5 h6 h7 h8, of demo_gateway demo_request,
      unfolded Let_def demo_matching]
  show ?thesis
    using t h1 h2 h3 h4 h5 h6 h7 h8 h9 h10
    by (simp add: r g demo_rows_def)
qed

text \<open>
  Claim C1 as stated does not hold: the result of the library function has no \<open>total\<close>, and
  the endpoint's answer for an empty table has neither \<open>failed\<close> nor \<open>total\<close>.
\<close>

theorem dispatcher_total_counterexample:
  "total (fst (sendPushNotificationServer demo_env demo_gateway [2, 0, 1] demo_payload demo_world)) \<noteq> Some 3
   \<and> failed (snd (fst (POST_send demo_env demo_gateway [] demo_request empty_world))) \<noteq> Some 0
   \<and> total (snd (fst (POST_send demo_env demo_gateway [] demo_request empty_world))) \<noteq> Some 0"
  by (simp add: sendPushNotificationServer_def POST_send_def demo_env_def demo_payload_def
      demo_request_def demo_world_def empty_world_def truthy_def createAdminSupabaseClient_def
      db_select_def matching_def internalSecret_def or_else_def Let_def empty_object_def
      demo_rows_def split: prod.split)

section \<open>The gate of the send endpoint\<close>

text \<open>
  Claim C3.  When the header \<open>x-internal-secret\<close> is absent or differs from the configured
  secret, \<open>POST /api/push/send\<close> answers 401 and leaves the world as it was: the trace has no
  new gateway call, no read of the table and no deletion, whatever the body is.
\<close>

theorem send_gate_rejects:
  "x_internal_secret request \<noteq> Some (internalSecret env) \<Longrightarrow>
   fst (fst (POST_send env gw order request w)) = 401 \<and> snd (POST_send env gw order request w) = w"
  by (simp add: POST_send_def)

text \<open>The theorem for a request without the header and for one with a wrong value.\<close>

theorem send_gate_rejects_witness:
  "x_internal_secret (demo_request\<lparr>x_internal_secret := None\<rparr>) \<noteq> Some (internalSecret demo_env)
   \<and> x_internal_secret (demo_request\<lparr>x_internal_secret := Some ''guess''\<rparr>) \<noteq> Some (internalSecret demo_env)
   \<and> fst (fst (POST_send demo_env demo_gateway [2, 0, 1] (demo_request\<lparr>x_internal_secret := None\<rparr>) demo_world)) = 401
   \<and> snd (POST_send demo_env demo_gateway [2, 0, 1] (demo_request\<lparr>x_internal_secret := None\<rparr>) demo_world) = demo_world
   \<and> fst (fst (POST_send demo_env demo_gateway [2, 0, 1] (demo_request\<lparr>x_internal_secret := Some ''guess''\<rparr>) demo_world)) = 401
   \<and> snd (POST_send demo_env demo_gateway [2, 0, 1] (demo_request\<lparr>x_internal_secret := Some ''guess''\<rparr>) demo_world) = demo_world"
proof -
  have a: "x_internal_secret (demo_request\<lparr>x_internal_secret := None\<rparr>) \<noteq> Some (internalSecret demo_env)"
    by simp
  have b: "x_internal_secret (demo_request\<lparr>x_internal_secret := Some ''guess''\<rparr>) \<noteq> Some (internalSecret demo_env)"
    by (simp add: demo_secret)
  show ?thesis
    using send_gate_rejects [OF a, of demo_gateway "[2, 0, 1]" demo_world]
      send_gate_rejects [OF b, of demo_gateway "[2, 0, 1]" demo_world] a b
    by simp
qed

section \<open>Sending to nobody\<close>

text \<open>
  Claim C4, as the code has it.  With title and body given, the VAPID keys and the service
  key configured and the table answering, a send for which no row matches (with or without
  \<open>userId\<close>) is a success and not an error: the library function returns
  \<open>{success: true, sent: 0, failed: 0}\<close>, without a field \<open>total\<close>, and the endpoint answers
  200 with \<open>{message: 'Nenhuma subscription encontrada', sent: 0}\<close>.  The only effect is the
  one read of the table.
\<close>

theorem empty_target_send:
  assumes vapid: "truthy (VAPID_PUBLIC_KEY env)" "truthy (VAPID_PRIVATE_KEY env)"
    and key: "truthy (SUPABASE_SERVICE_ROLE_KEY env)"
    and payload: "truthy (title p)" "truthy (body p)"
    and store: "db_fault w = None" "matching (userId p) (rows w) = []"
  shows "sendPushNotificationServer env gw order p w
           = (empty_object\<lparr>success := Some True, sent := Some 0, failed := Some 0\<rparr>,
              w\<lparr>trace := DbSelect (if truthy (userId p) then userId p else None) # trace w\<rparr>)
       \<and> (x_internal_secret request = Some (internalSecret env) \<and> json request = Inr p \<longrightarrow>
            POST_send env gw order request w
              = ((200, empty_object\<lparr>message := Some ''Nenhuma subscription encontrada'',
                                    sent := Some 0\<rparr>),
                 w\<lparr>trace := DbSelect (if truthy (userId p) then userId p else None) # trace w\<rparr>))"
  using assms
  by (simp add: sendPushNotificationServer_def POST_send_def createAdminSupabaseClient_def
      db_select_def Let_def)

text \<open>The theorem for a user without rows in a table that has rows of other users.\<close>

theorem empty_target_send_witness:
  "truthy (VAPID_PUBLIC_KEY demo_env) \<and> truthy (VAPID_PRIVATE_KEY demo_env)
   \<and> truthy (SUPABASE_SERVICE_ROLE_KEY demo_env)
   \<and> truthy (title (demo_payload\<lparr>userId := Some ''u9''\<rparr>)) \<and> truthy (body (demo_payload\<lparr>userId := Some ''u9''\<rparr>))
   \<and> db_fault demo_world = None
   \<and> matching (userId (demo_payload\<lparr>userId := Some ''u9''\<rparr>)) (rows demo_world) = []
   \<and> x_internal_secret (demo_request\<lparr>json := Inr (demo_payload\<lparr>userId := Some ''u9''\<rparr>)\<rparr>)
        = Some (internalSecret demo_env)
   \<and> sendPushNotificationServer demo_env demo_gateway [] (demo_payload\<lparr>userId := Some ''u9''\<rparr>) demo_world
        = (empty_object\<lparr>success := Some True, sent := Some 0, failed := Some 0\<rparr>,
           demo_world\<lparr>trace := [DbSelect (Some ''u9'')]\<rparr>)
   \<and> POST_send demo_env demo_gateway []
         (demo_request\<lparr>json := Inr (demo_payload\<lparr>userId := Some ''u9''\<rparr>)\<rparr>) demo_world
        = ((200, empty_object\<lparr>message := Some ''Nenhuma subscription encontrada'', sent := Some 0\<rparr>),
           demo_world\<lparr>trace := [DbSelect (Some ''u9'')]\<rparr>)"
proof -
  let ?p = "demo_payload\<lparr>userId := Some ''u9''\<rparr>"
  let ?r = "demo_request\<lparr>json := Inr ?p\<rparr>"
  have h1: "truthy (VAPID_PUBLIC_KEY demo_env)" and h2: "truthy (VAPID_PRIVATE_KEY demo_env)"
    and h3: "truthy (SUPABASE_SERVICE_ROLE_KEY demo_env)"
    by (simp_all add: demo_env_def truthy_def)
  have h4: "truthy (title ?p)" and h5: "truthy (body ?p)"
    by (simp_all add: demo_payload_def truthy_def)
  have h6: "db_fault demo_world = None" by (simp add: demo_world_def)
  have h7: "matching (userId ?p) (rows demo_world) = []"
    by (simp add: matching_def truthy_def demo_world_def demo_rows_def demo_row_def)
  have h8: "x_internal_secret ?r = Some (internalSecret demo_env)"
    by (simp add: demo_request_def internalSecret_def demo_env_def or_else_def)
  have t: "trace demo_world = []" by (simp add: demo_world_def)
  show ?thesis
    using empty_target_send [OF h1 h2 h3 h4 h5 h6 h7, of demo_gateway "[]" ?r] h1 h2 h3 h4 h5 h6 h7 h8
    by (simp add: truthy_def t)
qed

text \<open>Claim C4 as stated does not hold: neither result is the object
  \<open>{success: true, sent: 0, failed: 0, total: 0}\<close>.\<close>

theorem empty_target_send_counterexample:
  "fst (sendPushNotificationServer demo_env demo_gateway [] demo_payload empty_world)
     \<noteq> empty_object\<lparr>success := Some True, sent := Some 0, failed := Some 0, total := Some 0\<rparr>
   \<and> snd (fst (POST_send demo_env demo_gateway [] demo_request empty_world))
     \<noteq> empty_object\<lparr>success := Some True, sent := Some 0, failed := Some 0, total := Some 0\<rparr>"
  by (simp add: sendPushNotificationServer_def POST_send_def demo_env_def demo_payload_def
      demo_request_def empty_world_def truthy_def createAdminSupabaseClient_def
      db_select_def matching_def internalSecret_def or_else_def Let_def empty_object_def)

section \<open>The secret of the gate\<close>

lemma POST_send_401:
  "fst (fst (POST_send env gw order request w)) = 401 \<longleftrightarrow> x_internal_secret request \<noteq> Some (internalSecret env)"
  by (auto simp: POST_send_def Let_def split: option.split sum.split prod.split)

text \<open>
  Claim C10.  The gate of \<open>POST /api/push/send\<close> compares the header \<open>x-internal-secret\<close>
  with \<open>INTERNAL_SECRET\<close> when it is set (to a non-empty value, which is what \<open>||\<close> tests),
  otherwise with \<open>VAPID_SUBJECT\<close> when that is set, otherwise with
  \<open>'change-me-in-production'\<close>: the answer is 401 exactly when the header is absent or differs
  from that value.  So when \<open>INTERNAL_SECRET\<close> is not set, a request whose header carries the
  fallback value is not answered with 401.
\<close>

theorem internal_secret_fallback:
  "internalSecret env =
     (if truthy (INTERNAL_SECRET env) then the (INTERNAL_SECRET env)
      else if truthy (VAPID_SUBJECT env) then the (VAPID_SUBJECT env)
      else ''change-me-in-production'')
   \<and> (fst (fst (POST_send env gw order request w)) = 401 \<longleftrightarrow>
        x_internal_secret request \<noteq>
          Some (if truthy (INTERNAL_SECRET env) then the (INTERNAL_SECRET env)
                else if truthy (VAPID_SUBJECT env) then the (VAPID_SUBJECT env)
                else ''change-me-in-production''))
   \<and> (\<not> truthy (INTERNAL_SECRET env) \<and>
      x_internal_secret request =
        Some (if truthy (VAPID_SUBJECT env) then the (VAPID_SUBJECT env) else ''change-me-in-production'')
      \<longrightarrow> fst (fst (POST_send env gw order request w)) \<noteq> 401)"
proof -
  have s: "internalSecret env =
     (if truthy (INTERNAL_SECRET env) then the (INTERNAL_SECRET env)
      else if truthy (VAPID_SUBJECT env) then the (VAPID_SUBJECT env)
      else ''change-me-in-production'')"
    by (simp add: internalSecret_def or_else_def truthy_def split: option.split)
  have g: "fst (fst (POST_send env gw order request w)) = 401 \<longleftrightarrow>
        x_internal_secret request \<noteq>
          Some (if truthy (INTERNAL_SECRET env) then the (INTERNAL_SECRET env)
                else if truthy (VAPID_SUBJECT env) then the (VAPID_SUBJECT env)
                else ''change-me-in-production'')"
    using POST_send_401 [of env gw order request w] by (simp only: s)
  show ?thesis using s g by simp
qed

text \<open>
  The theorem with the secret set (the secret passes; the value of \<open>VAPID_SUBJECT\<close>, the
  last fallback and no header are refused), with only \<open>VAPID_SUBJECT\<close> set (its value passes,
  the last fallback is refused), and with neither (the last fallback passes).
\<close>

theorem internal_secret_fallback_witness:
  "truthy (INTERNAL_SECRET demo_env)
   \<and> \<not> truthy (INTERNAL_SECRET (demo_env\<lparr>INTERNAL_SECRET := None\<rparr>))
   \<and> truthy (VAPID_SUBJECT (demo_env\<lparr>INTERNAL_SECRET := None\<rparr>))
   \<and> \<not> truthy (INTERNAL_SECRET (demo_env\<lparr>INTERNAL_SECRET := Some [], VAPID_SUBJECT := None\<rparr>))
   \<and> \<not> truthy (VAPID_SUBJECT (demo_env\<lparr>INTERNAL_SECRET := Some [], VAPID_SUBJECT := None\<rparr>))
   \<and> internalSecret demo_env = ''s3cret''
   \<and> internalSecret (demo_env\<lparr>INTERNAL_SECRET := None\<rparr>) = ''mailto:ops@example.com''
   \<and> internalSecret (demo_env\<lparr>INTERNAL_SECRET := Some [], VAPID_SUBJECT := None\<rparr>) = ''change-me-in-production''
   \<and> fst (fst (POST_send demo_env demo_gateway [2, 0, 1] demo_request demo_world)) \<noteq> 401
   \<and> fst (fst (POST_send demo_env demo_gateway [2, 0, 1]
                 (demo_request\<lparr>x_internal_secret := Some ''mailto:ops@example.com''\<rparr>) demo_world)) = 401
   \<and> fst (fst (POST_send demo_env demo_gateway [2, 0, 1]
                 (demo_request\<lparr>x_internal_secret := Some ''change-me-in-production''\<rparr>) demo_world)) = 401
   \<and> fst (fst (POST_send demo_env demo_gateway [2, 0, 1]
                 (demo_request\<lparr>x_internal_secret := None\<rparr>) demo_world)) = 401
   \<and> fst (fst (POST_send (demo_env\<lparr>INTERNAL_SECRET := None\<rparr>) demo_gateway [2, 0, 1]
                 (demo_request\<lparr>x_internal_secret := Some ''mailto:ops@example.com''\<rparr>) demo_world)) \<noteq> 401
   \<and> fst (fst (POST_send (demo_env\<lparr>INTERNAL_SECRET := None\<rparr>) demo_gateway [2, 0, 1]
                 (demo_request\<lparr>x_internal_secret := Some ''change-me-in-production''\<rparr>) demo_world)) = 401
   \<and> fst (fst (POST_send (demo_env\<lparr>INTERNAL_SECRET := Some [], VAPID_SUBJECT := None\<rparr>) demo_gateway [2, 0, 1]
                 (demo_request\<lparr>x_internal_secret := Some ''change-me-in-production''\<rparr>) demo_world)) \<noteq> 401"
proof -
  let ?e1 = "demo_env\<lparr>INTERNAL_SECRET := None\<rparr>"
  let ?e2 = "demo_env\<lparr>INTERNAL_SECRET := Some [], VAPID_SUBJECT := None\<rparr>"
  let ?subject = "demo_request\<lparr>x_internal_secret := Some ''mailto:ops@example.com''\<rparr>"
  let ?last = "demo_request\<lparr>x_internal_secret := Some ''change-me-in-production''\<rparr>"
  let ?none = "demo_request\<lparr>x_internal_secret := None\<rparr>"
  have h: "x_internal_secret demo_request = Some ''s3cret''" by (simp add: demo_request_def)
  show ?thesis
    using internal_secret_fallback [of demo_env demo_gateway "[2, 0, 1]" demo_request demo_world]
      internal_secret_fallback [of demo_env demo_gateway "[2, 0, 1]" ?subject demo_world]
      internal_secret_fallback [of demo_env demo_gateway "[2, 0, 1]" ?last demo_world]
      internal_secret_fallback [of demo_env demo_gateway "[2, 0, 1]" ?none demo_world]
      internal_secret_fallback [of ?e1 demo_gateway "[2, 0, 1]" ?subject demo_world]
      internal_secret_fallback [of ?e1 demo_gateway "[2, 0, 1]" ?last demo_world]
      internal_secret_fallback [of ?e2 demo_gateway "[2, 0, 1]" ?last demo_world]
      h
    by (simp add: demo_env_def truthy_def)
qed

section \<open>The subscription store: upsert\<close>

lemma filter_distinct_key:
  "distinct (map f xs) \<Longrightarrow> filter (\<lambda>x. f x = v) xs = [] \<or> (\<exists>x. filter (\<lambda>x. f x = v) xs = [x])"
proof (induction xs)
  case Nil then show ?case by simp
next
  case (Cons a xs)
  show ?case
  proof (cases "f a = v")
    case True
    then have "v \<notin> f ` set xs" using Cons.prems by auto
    then have "filter (\<lambda>x. f x = v) xs = []" by (auto simp: filter_empty_conv)
    with True show ?thesis by simp
  next
    case False
    with Cons show ?thesis by simp
  qed
qed

lemma filter_distinct_single:
  assumes "distinct (map f xs)" "x \<in> set xs"
  shows "filter (\<lambda>y. f y = f x) xs = [x]"
proof -
  have mem: "x \<in> set (filter (\<lambda>y. f y = f x) xs)" using assms(2) by simp
  from filter_distinct_key [OF assms(1), of "f x"] show ?thesis
  proof (elim disjE exE)
    assume e: "filter (\<lambda>y. f y = f x) xs = []"
    from mem show ?thesis unfolding e by simp
  next
    fix y assume e: "filter (\<lambda>y. f y = f x) xs = [y]"
    from mem have "x = y" unfolding e by simp
    with e show ?thesis by simp
  qed
qed

lemma bearer_token: "replace_first ''Bearer '' [] (''Bearer '' @ t) = t"
  by simp

lemma bearer_user:
  "getUser idp t = Some u \<Longrightarrow> getServerUser idp (Some (''Bearer '' @ t)) = Some u"
  by (simp add: getServerUser_def Let_def)

lemma subscribe_valid:
  assumes "authorization r = Some (''Bearer '' @ t)" "t \<noteq> []" "getUser idp t = Some u"
    and "s_json r = Inr \<lparr>b_endpoint = Some e, b_p256dh = Some k, b_auth = Some a\<rparr>"
    and "e \<noteq> []" "k \<noteq> []" "a \<noteq> []"
  shows "POST_subscribe idp r w =
     (case (case select_single (Some u) u e w of
              Some i \<Rightarrow> update_single (Some u) i u e k a (clock r) w
            | None \<Rightarrow> insert_single (Some u) (uuid r) u e k a (clock r) w) of
        (Inl err, w') \<Rightarrow> ((500, Message (or_else (Some err) ''Erro ao salvar subscription'')), w')
      | (Inr result, w') \<Rightarrow> ((200, Saved result), w'))"
  using assms bearer_user [OF assms(3)]
  by (simp add: POST_subscribe_def Let_def truthy_def or_else_def)

lemma upsert_existing:
  assumes ok: "table_ok w" and ex: "owned u e (rows w) = [r0]"
  shows "select_single (Some u) u e w = Some (row_id r0)"
    and "\<exists>r' w'. update_single (Some u) (row_id r0) u e k a now w = (Inr r', w')
           \<and> table_ok w' \<and> owned u e (rows w') = [r'] \<and> p256dh r' = k \<and> auth r' = a"
proof -
  have f: "db_fault w = None" and di: "distinct (map row_id (rows w))"
    and dp: "distinct (map (\<lambda>r. (user_id r, endpoint r)) (rows w))"
    using ok by (simp_all add: table_ok_def)
  have "r0 \<in> set (owned u e (rows w))" using ex by simp
  then have r0: "r0 \<in> set (rows w)" "user_id r0 = u" "endpoint r0 = e"
    by (simp_all add: owned_def)
  have vis: "filter (\<lambda>r. Some (user_id r) = Some u \<and> user_id r = u \<and> endpoint r = e) (rows w) = [r0]"
    using ex by (simp add: owned_def cong: conj_cong)
  show "select_single (Some u) u e w = Some (row_id r0)"
    using f vis by (simp add: select_single_def)
  have byid: "filter (\<lambda>y. row_id y = row_id r0) (rows w) = [r0]"
    using filter_distinct_single [OF di r0(1)] .
  have tgt: "filter (\<lambda>r. Some (user_id r) = Some u \<and> row_id r = row_id r0) (rows w) = [r0]"
  proof -
    have "filter (\<lambda>r. user_id r = u \<and> row_id r = row_id r0) (rows w)
          = filter (\<lambda>r. user_id r = u) (filter (\<lambda>y. row_id y = row_id r0) (rows w))"
      by (simp add: conj_commute)
    then show ?thesis using byid r0(2) by simp
  qed
  have only: "x \<in> set (rows w) \<Longrightarrow> (user_id x = u \<and> row_id x = row_id r0) = (x = r0)" for x
  proof -
    assume x: "x \<in> set (rows w)"
    have "row_id x = row_id r0 \<Longrightarrow> x = r0"
      using di x r0(1) by (meson distinct_map inj_onD)
    with r0(2) show ?thesis by auto
  qed
  have nodup: "\<not> (\<exists>x \<in> set (rows w). row_id x \<noteq> row_id r0 \<and> user_id x = u \<and> endpoint x = e)"
  proof
    assume "\<exists>x \<in> set (rows w). row_id x \<noteq> row_id r0 \<and> user_id x = u \<and> endpoint x = e"
    then obtain x where x: "x \<in> set (rows w)" "row_id x \<noteq> row_id r0" "user_id x = u" "endpoint x = e" by blast
    then have "x \<in> set (owned u e (rows w))" by (simp add: owned_def)
    with ex x(2) show False by simp
  qed
  define r' where "r' = r0\<lparr>user_id := u, endpoint := e, p256dh := k, auth := a, updated_at := now\<rparr>"
  define g where "g = (\<lambda>x. if Some (user_id x) = Some u \<and> row_id x = row_id r0 then r' else x)"
  have gid: "x \<in> set (rows w) \<Longrightarrow> row_id (g x) = row_id x" for x
    using only [of x] by (auto simp: g_def r'_def)
  have gpair: "x \<in> set (rows w) \<Longrightarrow> (user_id (g x), endpoint (g x)) = (user_id x, endpoint x)" for x
    using only [of x] r0 by (auto simp: g_def r'_def)
  have upd: "update_single (Some u) (row_id r0) u e k a now w = (Inr r', w\<lparr>rows := map g (rows w)\<rparr>)"
    using f tgt nodup by (simp add: update_single_def Let_def r'_def g_def)
  have m1: "map row_id (map g (rows w)) = map row_id (rows w)"
    using gid by (simp add: map_idI cong: map_cong)
  have m2: "map (\<lambda>r. (user_id r, endpoint r)) (map g (rows w)) = map (\<lambda>r. (user_id r, endpoint r)) (rows w)"
    using gpair by (simp cong: map_cong)
  have "owned u e (map g (rows w)) = map g (filter (\<lambda>x. user_id (g x) = u \<and> endpoint (g x) = e) (rows w))"
    by (simp add: owned_def filter_map comp_def)
  also have "filter (\<lambda>x. user_id (g x) = u \<and> endpoint (g x) = e) (rows w) = owned u e (rows w)"
    unfolding owned_def using gpair by (intro filter_cong refl) auto
  finally have ow: "owned u e (map g (rows w)) = [r']"
    using ex by (simp add: g_def r0)
  have "table_ok (w\<lparr>rows := map g (rows w)\<rparr>)"
    using f di dp by (simp add: table_ok_def m1 m2 del: map_map)
  with upd ow show "\<exists>r' w'. update_single (Some u) (row_id r0) u e k a now w = (Inr r', w')
           \<and> table_ok w' \<and> owned u e (rows w') = [r'] \<and> p256dh r' = k \<and> auth r' = a"
    by (simp add: r'_def)
qed

lemma upsert_new:
  assumes ok: "table_ok w" and ex: "owned u e (rows w) = []" and fresh: "i \<notin> row_id ` set (rows w)"
  shows "select_single (Some u) u e w = None"
    and "\<exists>r' w'. insert_single (Some u) i u e k a now w = (Inr r', w')
           \<and> table_ok w' \<and> owned u e (rows w') = [r'] \<and> p256dh r' = k \<and> auth r' = a"
proof -
  have f: "db_fault w = None" and di: "distinct (map row_id (rows w))"
    and dp: "distinct (map (\<lambda>r. (user_id r, endpoint r)) (rows w))"
    using ok by (simp_all add: table_ok_def)
  have vis: "filter (\<lambda>r. Some (user_id r) = Some u \<and> user_id r = u \<and> endpoint r = e) (rows w) = []"
    using ex by (simp add: owned_def cong: conj_cong)
  show "select_single (Some u) u e w = None"
    using f vis by (simp add: select_single_def)
  have none: "\<forall>x \<in> set (rows w). \<not> (user_id x = u \<and> endpoint x = e)"
    using ex by (simp add: owned_def filter_empty_conv)
  have chk: "\<not> (\<exists>x \<in> set (rows w). row_id x = i \<or> (user_id x = u \<and> endpoint x = e))"
    using none fresh by auto
  define r where "r = \<lparr>row_id = i, user_id = u, endpoint = e, p256dh = k, auth = a,
                      created_at = now, updated_at = now\<rparr>"
  have ins: "insert_single (Some u) i u e k a now w = (Inr r, w\<lparr>rows := rows w @ [r]\<rparr>)"
    using f chk by (simp add: insert_single_def Let_def r_def)
  have "table_ok (w\<lparr>rows := rows w @ [r]\<rparr>)"
    using f di dp fresh none by (auto simp: table_ok_def r_def)
  moreover have "owned u e (rows w @ [r]) = [r]"
    using ex by (simp add: owned_def r_def)
  ultimately show "\<exists>r' w'. insert_single (Some u) i u e k a now w = (Inr r', w')
           \<and> table_ok w' \<and> owned u e (rows w') = [r'] \<and> p256dh r' = k \<and> auth r' = a"
    using ins by (simp add: r_def)
qed

lemma owned_cases: "table_ok w \<Longrightarrow> owned u e (rows w) = [] \<or> (\<exists>r0. owned u e (rows w) = [r0])"
proof -
  assume "table_ok w"
  then have "distinct (map (\<lambda>r. (user_id r, endpoint r)) (rows w))" by (simp add: table_ok_def)
  from filter_distinct_key [OF this, of "(u, e)"] show ?thesis by (simp add: owned_def)
qed

lemma subscribe_once:
  assumes "authorization r = Some (''Bearer '' @ t)" "t \<noteq> []" "getUser idp t = Some u"
    and "s_json r = Inr \<lparr>b_endpoint = Some e, b_p256dh = Some k, b_auth = Some a\<rparr>"
    and "e \<noteq> []" "k \<noteq> []" "a \<noteq> []"
    and ok: "table_ok w"
    and fresh: "owned u e (rows w) = [] \<longrightarrow> uuid r \<notin> row_id ` set (rows w)"
  shows "\<exists>r' w'. POST_subscribe idp r w = ((200, Saved r'), w')
           \<and> table_ok w' \<and> owned u e (rows w') = [r'] \<and> p256dh r' = k \<and> auth r' = a"
proof -
  note v = subscribe_valid [OF assms(1-7), of w]
  from owned_cases [OF ok, of u e] show ?thesis
  proof
    assume ex: "owned u e (rows w) = []"
    with fresh have fr: "uuid r \<notin> row_id ` set (rows w)" by simp
    from upsert_new(1) [OF ok ex fr] upsert_new(2) [OF ok ex fr, of k a "clock r"] v
    show ?thesis by auto
  next
    assume "\<exists>r0. owned u e (rows w) = [r0]"
    then obtain r0 where ex: "owned u e (rows w) = [r0]" by blast
    from upsert_existing(1) [OF ok ex] upsert_existing(2) [OF ok ex, of k a "clock r"] v
    show ?thesis by auto
  qed
qed

text \<open>
  Claim C2.  A user whose bearer token the identity provider accepts calls
  \<open>POST /api/push/subscribe\<close> twice with the same endpoint and with non-empty keys.  When the
  table satisfies its constraints and the identifier generated for a new row is fresh, both
  calls answer 200 and afterwards the table holds exactly one row for that user and endpoint,
  with the keys of the second call.
\<close>

theorem subscribe_upsert:
  assumes tok: "t \<noteq> []" "getUser idp t = Some u"
    and r1: "authorization r1 = Some (''Bearer '' @ t)"
            "s_json r1 = Inr \<lparr>b_endpoint = Some e, b_p256dh = Some k1, b_auth = Some a1\<rparr>"
    and r2: "authorization r2 = Some (''Bearer '' @ t)"
            "s_json r2 = Inr \<lparr>b_endpoint = Some e, b_p256dh = Some k2, b_auth = Some a2\<rparr>"
    and ne: "e \<noteq> []" "k1 \<noteq> []" "a1 \<noteq> []" "k2 \<noteq> []" "a2 \<noteq> []"
    and ok: "table_ok w"
    and fresh: "uuid r1 \<notin> row_id ` set (rows w)"
  shows "fst (fst (POST_subscribe idp r1 w)) = 200
       \<and> fst (fst (POST_subscribe idp r2 (snd (POST_subscribe idp r1 w)))) = 200
       \<and> map (\<lambda>r. (p256dh r, auth r))
            (owned u e (rows (snd (POST_subscribe idp r2 (snd (POST_subscribe idp r1 w))))))
           = [(k2, a2)]"
proof -
  from fresh have f1: "owned u e (rows w) = [] \<longrightarrow> uuid r1 \<notin> row_id ` set (rows w)" by simp
  from subscribe_once [OF r1(1) tok(1) tok(2) r1(2) ne(1) ne(2) ne(3) ok f1]
  obtain s1 w1 where one: "POST_subscribe idp r1 w = ((200, Saved s1), w1)" "table_ok w1"
      "owned u e (rows w1) = [s1]" by blast
  from one(3) have f2: "owned u e (rows w1) = [] \<longrightarrow> uuid r2 \<notin> row_id ` set (rows w1)" by simp
  from subscribe_once [OF r2(1) tok(1) tok(2) r2(2) ne(1) ne(4) ne(5) one(2) f2]
  obtain s2 w2 where two: "POST_subscribe idp r2 w1 = ((200, Saved s2), w2)"
      "owned u e (rows w2) = [s2]" "p256dh s2 = k2" "auth s2 = a2" by blast
  show ?thesis using one(1) two by simp
qed

text \<open>The theorem for a new endpoint of user \<open>u1\<close>: the first call inserts, the second
  updates.\<close>

theorem subscribe_upsert_witness:
  "''token-u1'' \<noteq> [] \<and> getUser demo_idp ''token-u1'' = Some ''u1''
   \<and> authorization (demo_subscribe ''k1'' ''a1'' 100 7) = Some (''Bearer '' @ ''token-u1'')
   \<and> authorization (demo_subscribe ''k2'' ''a2'' 200 8) = Some (''Bearer '' @ ''token-u1'')
   \<and> table_ok demo_world
   \<and> uuid (demo_subscribe ''k1'' ''a1'' 100 7) \<notin> row_id ` set (rows demo_world)
   \<and> fst (fst (POST_subscribe demo_idp (demo_subscribe ''k1'' ''a1'' 100 7) demo_world)) = 200
   \<and> fst (fst (POST_subscribe demo_idp (demo_subscribe ''k2'' ''a2'' 200 8)
                 (snd (POST_subscribe demo_idp (demo_subscribe ''k1'' ''a1'' 100 7) demo_world)))) = 200
   \<and> map (\<lambda>r. (p256dh r, auth r))
       (owned ''u1'' ''https://push.example/new''
          (rows (snd (POST_subscribe demo_idp (demo_subscribe ''k2'' ''a2'' 200 8)
                        (snd (POST_subscribe demo_idp (demo_subscribe ''k1'' ''a1'' 100 7) demo_world))))))
       = [(''k2'', ''a2'')]"
proof -
  have t: "''token-u1'' \<noteq> []" "getUser demo_idp ''token-u1'' = Some ''u1''"
    by (simp_all add: demo_idp_def)
  have a1: "authorization (demo_subscribe ''k1'' ''a1'' 100 7) = Some (''Bearer '' @ ''token-u1'')"
    and a2: "authorization (demo_subscribe ''k2'' ''a2'' 200 8) = Some (''Bearer '' @ ''token-u1'')"
    by (simp_all add: demo_subscribe_def)
  have b1: "s_json (demo_subscribe ''k1'' ''a1'' 100 7)
        = Inr \<lparr>b_endpoint = Some ''https://push.example/new'', b_p256dh = Some ''k1'', b_auth = Some ''a1''\<rparr>"
    and b2: "s_json (demo_subscribe ''k2'' ''a2'' 200 8)
        = Inr \<lparr>b_endpoint = Some ''https://push.example/new'', b_p256dh = Some ''k2'', b_auth = Some ''a2''\<rparr>"
    by (simp_all add: demo_subscribe_def)
  have ne: "''https://push.example/new'' \<noteq> []" "''k1'' \<noteq> []" "''a1'' \<noteq> []" "''k2'' \<noteq> []" "''a2'' \<noteq> []"
    by simp_all
  have ok: "table_ok demo_world"
    by (simp add: table_ok_def demo_world_def demo_rows_def demo_row_def)
  have fr: "uuid (demo_subscribe ''k1'' ''a1'' 100 7) \<notin> row_id ` set (rows demo_world)"
    by (simp add: demo_subscribe_def demo_world_def demo_rows_def demo_row_def)
  show ?thesis
    using subscribe_upsert [OF t a1 b1 a2 b2 ne ok fr] t a1 a2 ok fr by blast
qed

section \<open>The service worker: fetch\<close>

text \<open>
  Claim C6.  For a GET request the listener responds with the network response when the
  network request succeeds; with the cached response when the network request fails and the
  cache has a match; with the network error when it fails and the cache has no match.  A
  request with another method is not intercepted.  The cache is never written.
\<close>

theorem fetch_network_first:
  "(request_method request = ''GET'' \<and> network request = Inr resp \<longrightarrow>
      fetch_listener network cache request = (RespondWith (Inr resp), cache))
   \<and> (request_method request = ''GET'' \<and> network request = Inl err \<and> cache request = Some cached \<longrightarrow>
      fetch_listener network cache request = (RespondWith (Inr cached), cache))
   \<and> (request_method request = ''GET'' \<and> network request = Inl err \<and> cache request = None \<longrightarrow>
      fetch_listener network cache request = (RespondWith (Inl err), cache))
   \<and> (request_method request \<noteq> ''GET'' \<longrightarrow>
      fetch_listener network cache request = (NotIntercepted, cache))"
  by (simp add: fetch_listener_def)

text \<open>The theorem at one request for each of the four cases.\<close>

theorem fetch_network_first_witness:
  "fetch_listener demo_network demo_cache \<lparr>request_method = ''GET'', request_url = ''/dashboard''\<rparr>
     = (RespondWith (Inr (Response 200 ''fresh'')), demo_cache)
   \<and> fetch_listener demo_network demo_cache \<lparr>request_method = ''GET'', request_url = ''/offline''\<rparr>
     = (RespondWith (Inr (Response 200 ''cached'')), demo_cache)
   \<and> fetch_listener demo_network demo_cache \<lparr>request_method = ''GET'', request_url = ''/visits''\<rparr>
     = (RespondWith (Inl ''TypeError: Failed to fetch''), demo_cache)
   \<and> fetch_listener demo_network demo_cache \<lparr>request_method = ''POST'', request_url = ''/dashboard''\<rparr>
     = (NotIntercepted, demo_cache)"
proof -
  let ?a = "\<lparr>request_method = ''GET'', request_url = ''/dashboard''\<rparr>"
  let ?b = "\<lparr>request_method = ''GET'', request_url = ''/offline''\<rparr>"
  let ?c = "\<lparr>request_method = ''GET'', request_url = ''/visits''\<rparr>"
  let ?d = "\<lparr>request_method = ''POST'', request_url = ''/dashboard''\<rparr>"
  have a: "request_method ?a = ''GET'' \<and> demo_network ?a = Inr (Response 200 ''fresh'')"
    by (simp add: demo_network_def)
  have b: "request_method ?b = ''GET'' \<and> demo_network ?b = Inl ''TypeError: Failed to fetch''
           \<and> demo_cache ?b = Some (Response 200 ''cached'')"
    by (simp add: demo_network_def demo_cache_def)
  have c: "request_method ?c = ''GET'' \<and> demo_network ?c = Inl ''TypeError: Failed to fetch''
           \<and> demo_cache ?c = None"
    by (simp add: demo_network_def demo_cache_def)
  have d: "request_method ?d \<noteq> ''GET''" by simp
  show ?thesis
    using fetch_network_first [of ?a demo_network "Response 200 ''fresh''" demo_cache]
      fetch_network_first [of ?b demo_network _ demo_cache "''TypeError: Failed to fetch''" "Response 200 ''cached''"]
      fetch_network_first [of ?c demo_network _ demo_cache "''TypeError: Failed to fetch''"]
      fetch_network_first [of ?d demo_network _ demo_cache]
      a b c d
    by simp
qed

section \<open>The service worker: push\<close>

text \<open>A body that is not JSON is shown as text over the defaults; no data gives the
  defaults; a JSON value other than \<open>null\<close> has its members merged over the defaults.\<close>

lemma push_text_fallback:
  "json_of d = None \<Longrightarrow>
   push_listener now (Some d)
     = default_notificationData
         \<lparr>n_body := (if text_of d = [] then JStr default_body else JStr (text_of d))\<rparr>"
  by (simp add: push_listener_def from_text_def js_or_def default_notificationData_def)

lemma push_no_data: "push_listener now None = default_notificationData"
  by (simp add: push_listener_def)

lemma property_not_null: "payload \<noteq> JNull \<Longrightarrow> \<exists>v. property payload name = Some v"
  by (cases payload) simp_all

lemma push_merge:
  assumes "json_of d = Some payload" "payload \<noteq> JNull"
  shows "push_listener now (Some d) =
     \<lparr> n_title = js_or (the (property payload ''title'')) (JStr default_title),
       n_body = js_or (the (property payload ''body'')) (JStr default_body),
       n_icon = js_or (the (property payload ''icon'')) (JStr ''/icon.svg''),
       n_badge = js_or (the (property payload ''badge'')) (JStr ''/icon.svg''),
       n_tag = js_or (the (property payload ''tag'')) (JStr ''visitaflow-notification''),
       n_data = js_or (the (property payload ''data'')) (JObj []),
       requireInteraction = Some (js_or (the (property payload ''requireInteraction'')) (JBool False)),
       vibrate = Some (js_or (the (property payload ''vibrate'')) (JArr [JNum 200, JNum 100, JNum 200])),
       timestamp = Some (JNum (int now)) \<rparr>"
  using assms
  by (cases payload) (simp_all add: push_listener_def from_payload_def default_notificationData_def)

text \<open>
  Claim C7 at the body \<open>null\<close>, which parses as JSON: reading \<open>payload.title\<close> throws inside
  \<open>try\<close>, and the \<open>catch\<close> branch shows the text \<open>null\<close> as the body of the notification,
  where merging the parsed value over the defaults would show the default body.
\<close>

theorem push_null_payload_shown_as_text:
  "push_listener now (Some \<lparr>text_of = ''null'', json_of = Some JNull\<rparr>)
     = default_notificationData\<lparr>n_body := JStr ''null''\<rparr>
   \<and> n_body (push_listener now (Some \<lparr>text_of = ''null'', json_of = Some JNull\<rparr>)) \<noteq> JStr default_body
   \<and> requireInteraction (push_listener now (Some \<lparr>text_of = ''null'', json_of = Some JNull\<rparr>)) = None
   \<and> timestamp (push_listener now (Some \<lparr>text_of = ''null'', json_of = Some JNull\<rparr>)) = None"
  by (simp add: push_listener_def from_payload_def from_text_def js_or_def
      default_notificationData_def default_body_def)

section \<open>The subscription manager: permission\<close>

text \<open>
  Claim C8.  On a supported platform \<open>requestNotificationPermission\<close> returns \<open>granted\<close> when
  the permission is already granted and throws the permission-denied error when it is already
  denied, in both cases leaving the platform as it was (no prompt is shown); on a platform
  that fails the capability check it throws the not-supported error.  The two errors differ.
\<close>

theorem request_permission_short_circuit:
  "(isPushNotificationSupported pf \<and> permission pf = granted \<longrightarrow>
      requestNotificationPermission pf = (Inr granted, pf))
   \<and> (isPushNotificationSupported pf \<and> permission pf = denied \<longrightarrow>
      requestNotificationPermission pf = (Inl permission_denied_message, pf))
   \<and> (\<not> isPushNotificationSupported pf \<longrightarrow>
      requestNotificationPermission pf = (Inl not_supported_message, pf))
   \<and> permission_denied_message \<noteq> not_supported_message"
  by (simp add: requestNotificationPermission_def permission_denied_message_def
      not_supported_message_def)

text \<open>The theorem for a granted, a denied and an unsupported platform.\<close>

theorem request_permission_short_circuit_witness:
  "isPushNotificationSupported demo_platform \<and> permission demo_platform = granted
   \<and> isPushNotificationSupported (demo_platform\<lparr>permission := denied\<rparr>)
   \<and> permission (demo_platform\<lparr>permission := denied\<rparr>) = denied
   \<and> \<not> isPushNotificationSupported (demo_platform\<lparr>has_PushManager := False\<rparr>)
   \<and> requestNotificationPermission demo_platform = (Inr granted, demo_platform)
   \<and> prompts (snd (requestNotificationPermission demo_platform)) = 0
   \<and> requestNotificationPermission (demo_platform\<lparr>permission := denied\<rparr>)
        = (Inl permission_denied_message, demo_platform\<lparr>permission := denied\<rparr>)
   \<and> prompts (snd (requestNotificationPermission (demo_platform\<lparr>permission := denied\<rparr>))) = 0
   \<and> requestNotificationPermission (demo_platform\<lparr>has_PushManager := False\<rparr>)
        = (Inl not_supported_message, demo_platform\<lparr>has_PushManager := False\<rparr>)"
proof -
  have a: "isPushNotificationSupported demo_platform \<and> permission demo_platform = granted"
    by (simp add: isPushNotificationSupported_def demo_platform_def)
  have b: "isPushNotificationSupported (demo_platform\<lparr>permission := denied\<rparr>)
           \<and> permission (demo_platform\<lparr>permission := denied\<rparr>) = denied"
    by (simp add: isPushNotificationSupported_def demo_platform_def)
  have c: "\<not> isPushNotificationSupported (demo_platform\<lparr>has_PushManager := False\<rparr>)"
    by (simp add: isPushNotificationSupported_def)
  have p: "prompts demo_platform = 0" by (simp add: demo_platform_def)
  show ?thesis
    using request_permission_short_circuit [of demo_platform]
      request_permission_short_circuit [of "demo_platform\<lparr>permission := denied\<rparr>"]
      request_permission_short_circuit [of "demo_platform\<lparr>has_PushManager := False\<rparr>"]
      a b c p
    by simp
qed

section \<open>The subscription manager: disable\<close>

text \<open>
  Claim C9, as the code has it.  \<open>disablePushNotifications\<close> sends no request to the server
  and changes nothing of the platform but the push subscription.  On a supported platform
  whose service worker is ready and whose \<open>getSubscription\<close> and \<open>unsubscribe\<close> do not reject,
  it returns success and no subscription is left; on an unsupported platform it returns
  \<open>success: false\<close>.
\<close>

theorem disable_is_local:
  "requests (snd (disablePushNotifications pf)) = requests pf
   \<and> (snd (disablePushNotifications pf))\<lparr>subscription := subscription pf\<rparr> = pf
   \<and> (isPushNotificationSupported pf \<and> worker_ready pf \<and> getSubscription_error pf = None
        \<and> unsubscribe_error pf = None \<longrightarrow>
        fst (disablePushNotifications pf) = Resolved \<lparr>d_success = True, d_error = None\<rparr>
        \<and> subscription (snd (disablePushNotifications pf)) = None)
   \<and> (\<not> isPushNotificationSupported pf \<longrightarrow>
        disablePushNotifications pf
          = (Resolved \<lparr>d_success = False, d_error = Some disable_not_supported_message\<rparr>, pf))"
  by (simp add: disablePushNotifications_def split: option.split)

text \<open>The theorem for a platform with a subscription and for an unsupported one.\<close>

theorem disable_is_local_witness:
  "isPushNotificationSupported demo_platform \<and> worker_ready demo_platform
   \<and> getSubscription_error demo_platform = None \<and> unsubscribe_error demo_platform = None
   \<and> subscription demo_platform \<noteq> None
   \<and> \<not> isPushNotificationSupported (demo_platform\<lparr>has_PushManager := False\<rparr>)
   \<and> disablePushNotifications demo_platform
        = (Resolved \<lparr>d_success = True, d_error = None\<rparr>, demo_platform\<lparr>subscription := None\<rparr>)
   \<and> requests (snd (disablePushNotifications demo_platform)) = [(''POST'', ''/api/push/subscribe'')]
   \<and> disablePushNotifications (demo_platform\<lparr>has_PushManager := False\<rparr>)
        = (Resolved \<lparr>d_success = False, d_error = Some disable_not_supported_message\<rparr>,
           demo_platform\<lparr>has_PushManager := False\<rparr>)"
proof -
  have a: "isPushNotificationSupported demo_platform \<and> worker_ready demo_platform
     \<and> getSubscription_error demo_platform = None \<and> unsubscribe_error demo_platform = None
     \<and> subscription demo_platform \<noteq> None"
    by (simp add: isPushNotificationSupported_def demo_platform_def)
  have c: "\<not> isPushNotificationSupported (demo_platform\<lparr>has_PushManager := False\<rparr>)"
    by (simp add: isPushNotificationSupported_def)
  have r: "requests demo_platform = [(''POST'', ''/api/push/subscribe'')]"
    by (simp add: demo_platform_def)
  have e: "disablePushNotifications demo_platform
        = (fst (disablePushNotifications demo_platform), snd (disablePushNotifications demo_platform))"
    by simp
  have u: "snd (disablePushNotifications demo_platform) = demo_platform\<lparr>subscription := None\<rparr>"
    using disable_is_local [of demo_platform] a
    by (metis platform.surjective platform.update_convs(9))
  show ?thesis
    using disable_is_local [of demo_platform]
      disable_is_local [of "demo_platform\<lparr>has_PushManager := False\<rparr>"] a c r u
    by (metis e)
qed

text \<open>Claim C9 as stated does not hold: when \<open>unsubscribe\<close> rejects, the subscription
  stays and the result is \<open>success: false\<close>; so it is on an unsupported platform.\<close>

theorem disable_failure_counterexample:
  "isPushNotificationSupported (demo_platform\<lparr>unsubscribe_error := Some ''NetworkError''\<rparr>)
   \<and> subscription (demo_platform\<lparr>unsubscribe_error := Some ''NetworkError''\<rparr>) \<noteq> None
   \<and> fst (disablePushNotifications (demo_platform\<lparr>unsubscribe_error := Some ''NetworkError''\<rparr>))
       = Resolved \<lparr>d_success = False, d_error = Some ''NetworkError''\<rparr>
   \<and> subscription (snd (disablePushNotifications (demo_platform\<lparr>unsubscribe_error := Some ''NetworkError''\<rparr>)))
       \<noteq> None
   \<and> fst (disablePushNotifications (demo_platform\<lparr>has_PushManager := False\<rparr>))
       = Resolved \<lparr>d_success = False, d_error = Some disable_not_supported_message\<rparr>"
  by (simp add: disablePushNotifications_def isPushNotificationSupported_def demo_platform_def
      or_else_def)

section \<open>The key codec: decoding and encoding again\<close>

lemma sextet_group:
  fixes a b c d :: nat
  assumes "a < 64" "b < 64" "c < 64" "d < 64"
  shows "(a * 4 + b div 16) div 4 = a"
    and "((a * 4 + b div 16) mod 4) * 16 + ((b mod 16) * 16 + c div 4) div 16 = b"
    and "(((b mod 16) * 16 + c div 4) mod 16) * 4 + ((c mod 4) * 64 + d) div 64 = c"
    and "((c mod 4) * 64 + d) mod 64 = d"
  using assms by auto

lemma sextet_tail3:
  fixes a b c :: nat
  assumes "a < 64" "b < 64" "c < 64" "c mod 4 = 0"
  shows "(((b mod 16) * 16 + c div 4) mod 16) * 4 = c"
  using assms by auto

lemma sextet_tail2:
  fixes a b :: nat
  assumes "a < 64" "b < 64" "b mod 16 = 0"
  shows "((a * 4 + b div 16) mod 4) * 16 = b"
  using assms by auto


lemma replicate_two: "replicate 2 x = [x, x]"
  by (simp add: numeral_2_eq_2)

lemma pad_step: "(4 - (Suc (Suc (Suc (Suc n)))) mod 4) mod 4 = (4 - n mod 4) mod 4"
proof -
  have "Suc (Suc (Suc (Suc n))) mod 4 = n mod 4" by presburger
  then show ?thesis by simp
qed

lemma encode_decode_sextets:
  "\<forall>s \<in> set ss. s < 64 \<Longrightarrow> tail_ok ss \<Longrightarrow>
   encode_bytes (decode_sextets ss)
     = map char_of_sextet ss @ replicate ((4 - length ss mod 4) mod 4) CHR ''=''"
proof (induction ss rule: decode_sextets.induct)
  case (1 a b c d rest)
  then have b: "a < 64" "b < 64" "c < 64" "d < 64" and r: "\<forall>s \<in> set rest. s < 64" "tail_ok rest"
    by simp_all
  have ih: "encode_bytes (decode_sextets rest)
     = map char_of_sextet rest @ replicate ((4 - length rest mod 4) mod 4) CHR ''=''"
    using "1.IH" r by simp
  show ?case
    unfolding decode_sextets.simps append_Cons append_Nil encode_bytes.simps sextet_group [OF b] ih
    by (simp add: pad_step)
next
  case (2 a b c)
  then have b: "a < 64" "b < 64" "c < 64" "c mod 4 = 0" by simp_all
  show ?case
    unfolding decode_sextets.simps encode_bytes.simps
      sextet_group(1,2) [OF b(1) b(2) b(3) b(3)] sextet_tail3 [OF b]
    by simp
next
  case (3 a b)
  then have b: "a < 64" "b < 64" "b mod 16 = 0" by simp_all
  show ?case
    unfolding decode_sextets.simps encode_bytes.simps
      sextet_group(1) [OF b(1) b(2) b(2) b(2)] sextet_tail2 [OF b]
    by (simp add: replicate_two)
next
  case (4 a) then show ?case by simp
next
  case 5 show ?case by simp
qed

lemma decode_sextets_bytes:
  "\<forall>s \<in> set ss. s < 64 \<Longrightarrow> \<forall>b \<in> set (decode_sextets ss). b < 256"
proof (induction ss rule: decode_sextets.induct)
  case (1 a b c d rest)
  then have b: "a < 64" "b < 64" "c < 64" "d < 64" and r: "\<forall>s \<in> set rest. s < 64"
    by simp_all
  have "a * 4 + b div 16 < 256" "(b mod 16) * 16 + c div 4 < 256" "(c mod 4) * 64 + d < 256"
    using b by auto
  with "1.IH" r show ?case by simp
next
  case (2 a b c)
  then have b: "a < 64" "b < 64" "c < 64" by simp_all
  have "a * 4 + b div 16 < 256" "(b mod 16) * 16 + c div 4 < 256" using b by auto
  then show ?case by simp
next
  case (3 a b)
  then have b: "a < 64" "b < 64" by simp_all
  have "a * 4 + b div 16 < 256" using b by auto
  then show ?case by simp
qed simp_all

lemma base64_map: "base64 x = map to_standard (x @ replicate ((4 - length x mod 4) mod 4) CHR ''='')"
  by (simp add: base64_def to_standard_def Let_def)

lemma index_of_Some: "index_of c xs = Some i \<Longrightarrow> i < length xs \<and> xs ! i = c"
proof (induction xs arbitrary: i)
  case Nil then show ?case by simp
next
  case (Cons x xs)
  show ?case
  proof (cases "c = x")
    case True with Cons.prems show ?thesis by simp
  next
    case False
    with Cons.prems obtain j where j: "index_of c xs = Some j" "i = Suc j" by auto
    with Cons.IH [OF j(1)] show ?thesis by simp
  qed
qed

lemma index_of_nth: "distinct xs \<Longrightarrow> i < length xs \<Longrightarrow> index_of (xs ! i) xs = Some i"
proof (induction xs arbitrary: i)
  case Nil then show ?case by simp
next
  case (Cons x xs)
  show ?case
  proof (cases i)
    case 0 then show ?thesis by simp
  next
    case (Suc j)
    with Cons.prems have j: "j < length xs" and d: "distinct xs" and nx: "x \<notin> set xs" by simp_all
    have "xs ! j \<noteq> x" using j nx by (metis nth_mem)
    with Suc Cons.IH [OF d j] show ?thesis by simp
  qed
qed

lemma length_base64_alphabet: "length base64_alphabet = 64"
  by (simp add: base64_alphabet_def)

lemma distinct_base64_alphabet: "distinct base64_alphabet"
  by (simp add: base64_alphabet_def)

lemma standard_alphabet: "map to_standard base64url_alphabet = base64_alphabet"
  by (simp add: base64url_alphabet_def base64_alphabet_def to_standard_def)

lemma base64_alphabet_plain:
  "\<forall>c \<in> set base64_alphabet. \<not> is_ascii_whitespace c \<and> c \<noteq> CHR ''=''"
  by (simp add: base64_alphabet_def is_ascii_whitespace_def)

lemma url_char:
  assumes "index_of c base64url_alphabet = Some i"
  shows "sextet_of_char (to_standard c) = Some i" "i < 64" "char_of_sextet i = to_standard c"
    "\<not> is_ascii_whitespace (to_standard c)" "to_standard c \<noteq> CHR ''=''"
proof -
  from index_of_Some [OF assms] have i: "i < length base64url_alphabet" "base64url_alphabet ! i = c"
    by simp_all
  have len: "length base64url_alphabet = 64"
    using arg_cong [OF standard_alphabet, of length] by (simp add: length_base64_alphabet)
  show i64: "i < 64" using i(1) len by simp
  have "map to_standard base64url_alphabet ! i = to_standard c" using i by simp
  then have std: "base64_alphabet ! i = to_standard c" by (simp add: standard_alphabet)
  then show "char_of_sextet i = to_standard c" by (simp add: char_of_sextet_def)
  have "index_of (base64_alphabet ! i) base64_alphabet = Some i"
    using index_of_nth [OF distinct_base64_alphabet] i64 by (simp add: length_base64_alphabet)
  then show "sextet_of_char (to_standard c) = Some i" by (simp add: sextet_of_char_def std)
  have "to_standard c \<in> set base64_alphabet"
    using std i64 by (metis length_base64_alphabet nth_mem)
  with base64_alphabet_plain
  show "\<not> is_ascii_whitespace (to_standard c)" "to_standard c \<noteq> CHR ''=''" by auto
qed

lemma those_Cons:
  "those (map f (x # xs)) = Some ys \<longleftrightarrow>
   (\<exists>y ys'. f x = Some y \<and> those (map f xs) = Some ys' \<and> ys = y # ys')"
  by (auto split: option.splits)

lemma url_body:
  "those (map (\<lambda>c. index_of c base64url_alphabet) stem) = Some ss \<Longrightarrow>
   those (map sextet_of_char (map to_standard stem)) = Some ss
   \<and> (\<forall>s \<in> set ss. s < 64)
   \<and> map char_of_sextet ss = map to_standard stem
   \<and> filter (\<lambda>c. \<not> is_ascii_whitespace c) (map to_standard stem) = map to_standard stem
   \<and> CHR ''='' \<notin> set (map to_standard stem)
   \<and> length ss = length stem"
proof (induction stem arbitrary: ss)
  case Nil then show ?case by simp
next
  case (Cons c stem)
  from Cons.prems obtain i ss' where
    i: "index_of c base64url_alphabet = Some i"
    and r: "those (map (\<lambda>c. index_of c base64url_alphabet) stem) = Some ss'"
    and ss: "ss = i # ss'"
    unfolding those_Cons by blast
  note ih = Cons.IH [OF r]
  note ch = url_char [OF i]
  show ?case using ih ch ss by simp
qed

lemma tail_ok_length: "tail_ok ss \<Longrightarrow> length ss mod 4 \<noteq> 1"
proof (induction ss rule: tail_ok.induct)
  case (1 a b c d rest)
  have "Suc (Suc (Suc (Suc (length rest)))) mod 4 = length rest mod 4" by presburger
  with 1 show ?case by simp
qed simp_all

lemma strip_padding_pad:
  assumes "CHR ''='' \<notin> set s" "p \<le> 2"
  shows "strip_padding (s @ replicate p CHR ''='') = s"
proof -
  have l: "s \<noteq> [] \<Longrightarrow> last s \<noteq> CHR ''=''" using assms(1) last_in_set by metis
  from assms(2) consider "p = 0" | "p = 1" | "p = 2" by linarith
  then show ?thesis
  proof cases
    case 1 then show ?thesis using l by (auto simp: strip_padding_def)
  next
    case 2 then show ?thesis using l by (auto simp: strip_padding_def)
  next
    case 3
    then have "s @ replicate p CHR ''='' = (s @ ''='') @ ''=''" by (simp add: replicate_two)
    then show ?thesis by (simp add: strip_padding_def butlast_append)
  qed
qed

lemma mod4_cases:
  fixes n :: nat
  shows "n mod 4 = 0 \<or> n mod 4 = 1 \<or> n mod 4 = 2 \<or> n mod 4 = 3"
proof -
  have "n mod 4 < 4" by simp
  then show ?thesis by linarith
qed

lemma pad_length:
  fixes n :: nat
  shows "(n + (4 - n mod 4) mod 4) mod 4 = 0" and "n mod 4 \<noteq> 1 \<Longrightarrow> (4 - n mod 4) mod 4 \<le> 2"
proof -
  have "(n mod 4 + (4 - n mod 4) mod 4) mod 4 = 0"
    using mod4_cases [of n] by (elim disjE) simp_all
  then show "(n + (4 - n mod 4) mod 4) mod 4 = 0"
    by (simp only: mod_add_left_eq)
  show "n mod 4 \<noteq> 1 \<Longrightarrow> (4 - n mod 4) mod 4 \<le> 2"
    using mod4_cases [of n] by (elim disjE) simp_all
qed

lemma atob_padded:
  assumes ss: "those (map sextet_of_char s) = Some ss"
    and plain: "filter (\<lambda>c. \<not> is_ascii_whitespace c) s = s" "CHR ''='' \<notin> set s"
    and len: "length s mod 4 \<noteq> 1"
  shows "atob (s @ replicate ((4 - length s mod 4) mod 4) CHR ''='') = Some (decode_sextets ss)"
proof -
  let ?p = "(4 - length s mod 4) mod 4"
  have ws: "\<not> is_ascii_whitespace CHR ''=''" by (simp add: is_ascii_whitespace_def)
  have f: "filter (\<lambda>c. \<not> is_ascii_whitespace c) (s @ replicate ?p CHR ''='') = s @ replicate ?p CHR ''=''"
    using plain(1) ws by simp
  have l: "length (s @ replicate ?p CHR ''='') mod 4 = 0" using pad_length(1) [of "length s"] by simp
  have st: "strip_padding (s @ replicate ?p CHR ''='') = s"
    using strip_padding_pad [OF plain(2) pad_length(2) [OF len]] .
  show ?thesis
    unfolding atob_def Let_def f using l st len ss by simp
qed

lemma base64_valid:
  assumes "valid_base64url x"
  shows "\<exists>stem ss. base64 x = map to_standard stem @ replicate ((4 - length stem mod 4) mod 4) CHR ''=''
           \<and> those (map (\<lambda>c. index_of c base64url_alphabet) stem) = Some ss \<and> tail_ok ss"
proof -
  define stem where "stem = takeWhile (\<lambda>c. c \<noteq> CHR ''='') x"
  define pad where "pad = dropWhile (\<lambda>c. c \<noteq> CHR ''='') x"
  let ?p = "(4 - length stem mod 4) mod 4"
  have x: "x = stem @ pad" by (simp add: stem_def pad_def)
  from assms obtain ss where
    pad: "pad = [] \<or> pad = replicate ?p CHR ''=''"
    and ss: "those (map (\<lambda>c. index_of c base64url_alphabet) stem) = Some ss" "tail_ok ss"
    by (auto simp: valid_base64url_def Let_def stem_def pad_def split: option.splits)
  have eq: "to_standard CHR ''='' = CHR ''=''" by (simp add: to_standard_def)
  have "base64 x = map to_standard stem @ replicate ?p CHR ''=''"
  proof (cases "pad = []")
    case True
    then show ?thesis by (simp add: base64_map x eq)
  next
    case False
    with pad have p: "pad = replicate ?p CHR ''=''" by simp
    have "length x mod 4 = 0" using pad_length(1) [of "length stem"] by (simp add: x p)
    then show ?thesis by (simp add: base64_map x p eq)
  qed
  with ss show ?thesis by blast
qed

text \<open>Every output of the base64url encoder, padded or not, is a valid base64url
  string in the sense of \<open>valid_base64url\<close>.\<close>

lemma encode_bytes_sextets:
  "encode_bytes bs = map char_of_sextet (sextets_of_bytes bs)
     @ replicate ((4 - length (sextets_of_bytes bs) mod 4) mod 4) CHR ''=''"
proof (induction bs rule: sextets_of_bytes.induct)
  case (1 x y z rest)
  then show ?case by (simp add: pad_step)
next
  case (2 x y) show ?case by simp
next
  case (3 x) show ?case by (simp add: replicate_two)
next
  case 4 show ?case by simp
qed

lemma sextets_of_bytes_ok:
  "\<forall>b \<in> set bs. b < 256 \<Longrightarrow> (\<forall>s \<in> set (sextets_of_bytes bs). s < 64) \<and> tail_ok (sextets_of_bytes bs)"
proof (induction bs rule: sextets_of_bytes.induct)
  case (1 x y z rest)
  then have b: "x < 256" "y < 256" "z < 256" and r: "\<forall>b \<in> set rest. b < 256" by simp_all
  have "x div 4 < 64" "(x mod 4) * 16 + y div 16 < 64" "(y mod 16) * 4 + z div 64 < 64" "z mod 64 < 64"
    using b by auto
  with "1.IH" [OF r] show ?case by simp
next
  case (2 x y)
  then have b: "x < 256" "y < 256" by simp_all
  have "x div 4 < 64" "(x mod 4) * 16 + y div 16 < 64" "(y mod 16) * 4 < 64" "((y mod 16) * 4) mod 4 = 0"
    using b by auto
  then show ?case by simp
next
  case (3 x)
  then have b: "x < 256" by simp
  have "x div 4 < 64" "(x mod 4) * 16 < 64" "((x mod 4) * 16) mod 16 = 0" using b by auto
  then show ?case by simp
next
  case 4 show ?case by simp
qed

lemma url_safe_alphabet: "map to_url_safe base64_alphabet = base64url_alphabet"
  by (simp add: base64url_alphabet_def base64_alphabet_def to_url_safe_def)

lemma distinct_base64url_alphabet: "distinct base64url_alphabet"
  by (simp add: base64url_alphabet_def)

lemma base64url_alphabet_plain: "CHR ''='' \<notin> set base64url_alphabet"
  by (simp add: base64url_alphabet_def)

lemma url_safe_sextet:
  assumes "i < 64"
  shows "index_of (to_url_safe (char_of_sextet i)) base64url_alphabet = Some i"
    and "to_url_safe (char_of_sextet i) \<noteq> CHR ''=''"
proof -
  have len: "length base64url_alphabet = 64"
    using arg_cong [OF url_safe_alphabet, of length] by (simp add: length_base64_alphabet)
  have "map to_url_safe base64_alphabet ! i = to_url_safe (char_of_sextet i)"
    using assms by (simp add: char_of_sextet_def length_base64_alphabet)
  then have e: "base64url_alphabet ! i = to_url_safe (char_of_sextet i)"
    by (simp add: url_safe_alphabet)
  show "index_of (to_url_safe (char_of_sextet i)) base64url_alphabet = Some i"
    using index_of_nth [OF distinct_base64url_alphabet, of i] assms len e by simp
  have "to_url_safe (char_of_sextet i) \<in> set base64url_alphabet"
    using e assms len by (metis nth_mem)
  with base64url_alphabet_plain show "to_url_safe (char_of_sextet i) \<noteq> CHR ''=''" by auto
qed

lemma url_safe_sextets:
  "\<forall>s \<in> set ss. s < 64 \<Longrightarrow>
   those (map (\<lambda>c. index_of c base64url_alphabet) (map to_url_safe (map char_of_sextet ss))) = Some ss
   \<and> CHR ''='' \<notin> set (map to_url_safe (map char_of_sextet ss))"
proof (induction ss)
  case Nil show ?case by simp
next
  case (Cons s ss)
  then have s: "s < 64" and r: "\<forall>s \<in> set ss. s < 64" by simp_all
  from Cons.IH [OF r] url_safe_sextet [OF s] show ?case by simp
qed

lemma takeWhile_plain:
  "CHR ''='' \<notin> set s \<Longrightarrow>
   takeWhile (\<lambda>c. c \<noteq> CHR ''='') (s @ replicate p CHR ''='') = s
   \<and> dropWhile (\<lambda>c. c \<noteq> CHR ''='') (s @ replicate p CHR ''='') = replicate p CHR ''=''"
proof -
  assume a: "CHR ''='' \<notin> set s"
  then have all: "\<forall>c \<in> set s. c \<noteq> CHR ''=''" by auto
  have t: "takeWhile (\<lambda>c. c \<noteq> CHR ''='') (replicate p CHR ''='') = []"
    by (cases p) simp_all
  have d: "dropWhile (\<lambda>c. c \<noteq> CHR ''='') (replicate p CHR ''='') = replicate p CHR ''=''"
    by (cases p) simp_all
  show ?thesis using all t d by (simp add: takeWhile_append2 dropWhile_append2)
qed

lemma base64url_encode_valid:
  assumes "\<forall>b \<in> set bytes. b < 256"
  shows "valid_base64url (base64url_encode padded bytes)"
proof -
  define ss where "ss = sextets_of_bytes bytes"
  define s where "s = map to_url_safe (map char_of_sextet ss)"
  define p where "p = (4 - length ss mod 4) mod 4"
  have ok: "\<forall>x \<in> set ss. x < 64" "tail_ok ss"
    using sextets_of_bytes_ok [OF assms] by (simp_all add: ss_def)
  have u: "those (map (\<lambda>c. index_of c base64url_alphabet) s) = Some ss" "CHR ''='' \<notin> set s"
    using url_safe_sextets [OF ok(1)] by (simp_all add: s_def)
  have eq: "to_url_safe CHR ''='' = CHR ''=''" by (simp add: to_url_safe_def)
  have enc: "map to_url_safe (encode_bytes bytes) = s @ replicate p CHR ''=''"
    by (simp add: encode_bytes_sextets [of bytes] s_def p_def ss_def eq)
  have len: "length s = length ss" by (simp add: s_def)
  note tw = takeWhile_plain [OF u(2), of p]
  have t0: "takeWhile (\<lambda>c. c \<noteq> CHR ''='') s = s" "dropWhile (\<lambda>c. c \<noteq> CHR ''='') s = []"
    using u(2) by (auto simp: takeWhile_eq_all_conv dropWhile_eq_Nil_conv)
  show ?thesis
  proof (cases padded)
    case True
    then have "base64url_encode padded bytes = s @ replicate p CHR ''=''"
      by (simp add: base64url_encode_def enc)
    then show ?thesis
      using tw u(1) ok(2) by (simp add: valid_base64url_def Let_def len p_def)
  next
    case False
    then have "base64url_encode padded bytes = s"
      using tw by (simp add: base64url_encode_def enc)
    then show ?thesis
      using u(1) ok(2) by (simp add: valid_base64url_def Let_def t0)
  qed
qed

text \<open>
  Claim C5, as the code has it.  For a valid base64url string \<open>x\<close>, decoding with
  \<open>urlBase64ToUint8Array\<close> succeeds and encoding the bytes again with \<open>btoa\<close> gives the
  string the decoder itself built from \<open>x\<close>: \<open>x\<close> padded with \<open>=\<close> to a multiple of four
  characters and with \<open>-\<close> replaced by \<open>+\<close> and \<open>_\<close> by \<open>/\<close>.
\<close>

theorem codec_round_trip:
  "valid_base64url x \<Longrightarrow> Option.bind (urlBase64ToUint8Array x) encodeKey = Some (base64 x)"
proof -
  assume "valid_base64url x"
  from base64_valid [OF this] obtain stem ss where
    b: "base64 x = map to_standard stem @ replicate ((4 - length stem mod 4) mod 4) CHR ''=''"
    and ss: "those (map (\<lambda>c. index_of c base64url_alphabet) stem) = Some ss" and t: "tail_ok ss"
    by blast
  note u = url_body [OF ss]
  have len: "length (map to_standard stem) mod 4 \<noteq> 1" using tail_ok_length [OF t] u by simp
  have "atob (map to_standard stem @ replicate ((4 - length (map to_standard stem) mod 4) mod 4) CHR ''='')
        = Some (decode_sextets ss)"
    using atob_padded [of "map to_standard stem" ss] u len by blast
  then have dec: "urlBase64ToUint8Array x = Some (decode_sextets ss)"
    by (simp add: urlBase64ToUint8Array_def b)
  have bytes: "\<forall>b \<in> set (decode_sextets ss). b < 256" using decode_sextets_bytes u by blast
  have "encode_bytes (decode_sextets ss) = base64 x"
    using encode_decode_sextets [of ss] u t by (simp add: b)
  with dec bytes show ?thesis by (simp add: encodeKey_def btoa_def)
qed

text \<open>The theorem at a string with both URL-safe characters and without padding.\<close>

theorem codec_round_trip_witness:
  "valid_base64url ''-_8''
   \<and> Option.bind (urlBase64ToUint8Array ''-_8'') encodeKey = Some ''+/8=''"
proof -
  have v: "valid_base64url ''-_8''" by code_simp
  have b: "base64 ''-_8'' = ''+/8=''" by code_simp
  show ?thesis using codec_round_trip [OF v] v b by simp
qed

text \<open>Claim C5 as stated does not hold: for \<open>-_-_\<close>, which needs no padding, the
  round trip gives \<open>+/+/\<close>.\<close>

theorem codec_round_trip_counterexample:
  "valid_base64url ''-_-_''
   \<and> Option.bind (urlBase64ToUint8Array ''-_-_'') encodeKey = Some ''+/+/''
   \<and> strip_padding ''+/+/'' \<noteq> strip_padding ''-_-_''"
  by code_simp

end
